(* ===== verification/Prelude.thy ===== *)
theory Prelude
  imports Complex_Main "HOL-Library.Word" "HOL-Library.Sublist"
begin

text \<open>
  Shared vocabulary of the development of \<open>src/linux_cadtrace.py\<close>:
  the Python runtime notions every component uses (the exceptions the script can raise,
  the outcome of a call that may raise, a \<open>for\<close> loop whose body may raise), the
  two-dimensional points the sampler produces, the Euclidean distance of
  \<open>ezdxf.math.Vec2.distance\<close>, and the generic lemmas on them.
\<close>

named_theorems model_eval "rules that evaluate the model on concrete inputs"

type_synonym byte = "8 word"

text \<open>A point of the output drawing: the tuple \<open>(x, y)\<close> / \<open>Vec2(x, y)\<close> of the source.\<close>

type_synonym point = "real \<times> real"

text \<open>The Python exceptions that the modelled code raises or catches.\<close>

datatype pyexc =
    IndexError
  | ZeroDivisionError
  | FileNotFoundError
  | IsADirectoryError
  | NotADirectoryError
  | UnidentifiedImageError
  | UnicodeDecodeError
  | SvgParseError

text \<open>The result of a Python call: a returned value or a propagating exception.\<close>

datatype 'a outcome = Ret 'a | Raise pyexc

text \<open>
  A Python \<open>for\<close> loop whose body updates an accumulator and may raise: the first
  exception ends the loop and propagates.
\<close>

fun fold_err :: "('a \<Rightarrow> 'b \<Rightarrow> 'e + 'b) \<Rightarrow> 'a list \<Rightarrow> 'b \<Rightarrow> 'e + 'b" where
  "fold_err f [] b = Inr b"
| "fold_err f (x # xs) b = (case f x b of Inl e \<Rightarrow> Inl e | Inr b' \<Rightarrow> fold_err f xs b')"

text \<open>\<open>Vec2.distance\<close>: \<open>math.hypot(x1 - x2, y1 - y2)\<close>.\<close>

definition vec2_distance :: "point \<Rightarrow> point \<Rightarrow> real" where
  "vec2_distance p q = sqrt ((fst p - fst q)\<^sup>2 + (snd p - snd q)\<^sup>2)"

subsection \<open>Loops that may raise\<close>

lemma fold_err_append:
  "fold_err f (xs @ ys) b = (case fold_err f xs b of Inl e \<Rightarrow> Inl e | Inr b' \<Rightarrow> fold_err f ys b')"
  by (induction xs arbitrary: b) (auto split: sum.splits)

lemma fold_err_map:
  "(\<And>x b. f x b = Inr (g x b)) \<Longrightarrow> fold_err f xs b = Inr (fold g xs b)"
  by (induction xs arbitrary: b) simp_all

lemma fold_err_invariant:
  assumes "fold_err f xs b = Inr b'" and "P b"
    and "\<And>x c c'. x \<in> set xs \<Longrightarrow> P c \<Longrightarrow> f x c = Inr c' \<Longrightarrow> P c'"
  shows "P b'"
  using assms
proof (induction xs arbitrary: b)
  case Nil
  then show ?case by simp
next
  case (Cons x xs)
  then obtain c where c: "f x b = Inr c" and rest: "fold_err f xs c = Inr b'"
    by (auto split: sum.splits)
  from Cons.prems(2,3) c have "P c" by (metis list.set_intros(1))
  then show ?case
    using Cons.IH[OF rest] Cons.prems(3) by (meson list.set_intros(2))
qed

lemma fold_err_Inl_step:
  "fold_err f xs b = Inl e \<Longrightarrow> \<exists>x \<in> set xs. \<exists>c. f x c = Inl e"
  by (induction xs arbitrary: b) (auto split: sum.splits)

subsection \<open>Distances\<close>

lemma vec2_distance_commute: "vec2_distance p q = vec2_distance q p"
  by (simp add: vec2_distance_def power2_commute)

lemma vec2_distance_self [simp]: "vec2_distance p p = 0"
  by (simp add: vec2_distance_def)

lemma vec2_distance_nonneg: "0 \<le> vec2_distance p q"
  by (simp add: vec2_distance_def)

text \<open>The comparison the decimation makes, without the square root: it evaluates by \<open>simp\<close>.\<close>

lemma vec2_distance_gt_iff [model_eval]:
  "0 \<le> e \<Longrightarrow> (e < vec2_distance p q) = (e\<^sup>2 < (fst p - fst q)\<^sup>2 + (snd p - snd q)\<^sup>2)"
  unfolding vec2_distance_def
  by (metis abs_of_nonneg real_less_rsqrt real_sqrt_abs real_sqrt_less_iff)

end
