(* ===== verification/Sampler.thy ===== *)
theory Sampler
  imports Prelude
begin

text \<open>
  The curve sampler and simplifier of \<open>src/linux_cadtrace.py\<close>: the path segments that
  \<open>svgpathtools\<close> returns and their \<open>point(t)\<close> evaluation, the fixed-step sampling of
  \<open>svg_path_to_dxf_coords\<close> (lines 28--34, repeated inline in \<open>svg_to_dxf\<close>, lines
  53--57) with the flip of the y axis, and the greedy decimation of lines 59--62, which
  keeps a point only if it lies more than \<open>0.1\<close> from the last kept one.
  Coordinates are exact reals and complex numbers; the model does not round as Python's
  floats do.
\<close>

subsection \<open>Segments and their evaluation\<close>

text \<open>
  The segment classes of \<open>svgpathtools\<close> that potrace's SVG output produces (it writes
  \<open>l\<close>, \<open>c\<close> and \<open>z\<close> commands; \<open>z\<close> closes a path with a \<open>Line\<close>), plus the
  quadratic curve. Points are Python complex numbers, here \<^typ>\<open>complex\<close>.
\<close>

datatype segment =
    Line complex complex
  | QuadraticBezier complex complex complex
  | CubicBezier complex complex complex complex

text \<open>\<open>segment.point(t)\<close>, in the form the library evaluates it (Horner's rule for cubics).\<close>

fun seg_point :: "segment \<Rightarrow> real \<Rightarrow> complex" where
  "seg_point (Line s e) t = s + (e - s) * of_real t"
| "seg_point (QuadraticBezier s c e) t =
     (1 - of_real t) * (1 - of_real t) * s + 2 * (1 - of_real t) * of_real t * c
     + of_real t * of_real t * e"
| "seg_point (CubicBezier s c1 c2 e) t =
     s + of_real t * (3 * (c1 - s) + of_real t * (3 * (s + c2) - 6 * c1
       + of_real t * (- s + 3 * (c1 - c2) + e)))"

fun seg_start :: "segment \<Rightarrow> complex" where
  "seg_start (Line s e) = s"
| "seg_start (QuadraticBezier s c e) = s"
| "seg_start (CubicBezier s c1 c2 e) = s"

fun seg_end :: "segment \<Rightarrow> complex" where
  "seg_end (Line s e) = e"
| "seg_end (QuadraticBezier s c e) = e"
| "seg_end (CubicBezier s c1 c2 e) = e"

subsection \<open>Sampling\<close>

text \<open>\<open>(point.real, -point.imag)\<close>: the flip of the y axis for DXF.\<close>

definition flip_y :: "complex \<Rightarrow> point" where
  "flip_y z = (Re z, - Im z)"

text \<open>Python's \<open>range(n)\<close> on an integer, empty when \<open>n \<le> 0\<close>.\<close>

definition py_range :: "int \<Rightarrow> int list" where
  "py_range n = map int [0..<nat n]"

text \<open>
  \<open>[i / samples for i in range(samples + 1)]\<close>: true division of Python integers, which
  raises \<open>ZeroDivisionError\<close> at \<open>samples = 0\<close> (the list is then \<open>[0 / 0]\<close>).
\<close>

definition sample_ts :: "int \<Rightarrow> pyexc + real list" where
  "sample_ts samples =
     (if samples = 0 then Inl ZeroDivisionError
      else Inr (map (\<lambda>i. real_of_int i / real_of_int samples) (py_range (samples + 1))))"

text \<open>One iteration of \<open>for segment in path_obj\<close>: append the flipped samples.\<close>

definition sample_segment :: "int \<Rightarrow> segment \<Rightarrow> point list \<Rightarrow> pyexc + point list" where
  "sample_segment samples segment coords =
     (case sample_ts samples of
        Inl e \<Rightarrow> Inl e
      | Inr ts \<Rightarrow> Inr (coords @ map (\<lambda>t. flip_y (seg_point segment t)) ts))"

definition svg_path_to_dxf_coords :: "segment list \<Rightarrow> int \<Rightarrow> pyexc + point list" where
  "svg_path_to_dxf_coords path_obj samples = fold_err (sample_segment samples) path_obj []"

subsection \<open>Greedy decimation\<close>

text \<open>The literal \<open>0.1\<close> of line 61.\<close>

definition decimation_eps :: real where
  "decimation_eps = 1 / 10"

text \<open>One iteration of \<open>for pt in coords[1:]\<close> (lines 60--62).\<close>

definition decimate_step :: "point list \<Rightarrow> point \<Rightarrow> point list" where
  "decimate_step simplified pt =
     (if decimation_eps < vec2_distance pt (last simplified) then simplified @ [pt]
      else simplified)"

text \<open>
  Lines 59--62: \<open>coords[0]\<close> raises \<open>IndexError\<close> when the path produced no samples.
\<close>

definition simplify_coords :: "point list \<Rightarrow> pyexc + point list" where
  "simplify_coords coords =
     (case coords of
        [] \<Rightarrow> Inl IndexError
      | c # cs \<Rightarrow> Inr (fold (\<lambda>pt s. decimate_step s pt) cs [c]))"

text \<open>
  The streaming form the design notes describe: the only state is the last kept point.
  It is the reference against which the list-building loop of the source is proved.
\<close>

fun decimate_from :: "point \<Rightarrow> point list \<Rightarrow> point list" where
  "decimate_from p [] = []"
| "decimate_from p (q # qs) =
     (if decimation_eps < vec2_distance q p then q # decimate_from q qs
      else decimate_from p qs)"

definition far_apart :: "point \<Rightarrow> point \<Rightarrow> bool" where
  "far_apart p q \<longleftrightarrow> decimation_eps < vec2_distance p q"

text \<open>
  A polygon as potrace writes it for a shape with straight sides: one \<open>Line\<close> from each
  vertex to the next, closed when the last vertex is the first.
\<close>

fun lines_of :: "complex list \<Rightarrow> segment list" where
  "lines_of (a # b # rest) = Line a b # lines_of (b # rest)"
| "lines_of _ = []"

subsection \<open>Evaluation and the streaming form\<close>

lemma decimation_eps_pos [simp]: "0 < decimation_eps"
  by (simp add: decimation_eps_def)

lemma decimation_eps_lt_iff [model_eval]:
  "(decimation_eps < vec2_distance p q) =
     (1 / 100 < (fst p - fst q) * (fst p - fst q) + (snd p - snd q) * (snd p - snd q))"
  by (simp add: vec2_distance_gt_iff less_imp_le) (simp add: decimation_eps_def power2_eq_square)

lemma decimate_step_code [code]:
  "decimate_step simplified pt =
     (if 1 / 100 < (fst pt - fst (last simplified)) * (fst pt - fst (last simplified))
          + (snd pt - snd (last simplified)) * (snd pt - snd (last simplified))
      then simplified @ [pt] else simplified)"
  by (simp add: decimate_step_def decimation_eps_lt_iff)

lemma fold_decimate_step:
  "s \<noteq> [] \<Longrightarrow> fold (\<lambda>pt s. decimate_step s pt) cs s = s @ decimate_from (last s) cs"
proof (induction cs arbitrary: s)
  case Nil
  then show ?case by simp
next
  case (Cons q qs)
  then show ?case by (simp add: decimate_step_def)
qed

lemma simplify_coords_Nil [simp]: "simplify_coords [] = Inl IndexError"
  by (simp add: simplify_coords_def)

lemma simplify_coords_Cons:
  "simplify_coords (c # cs) = Inr (c # decimate_from c cs)"
  by (simp add: simplify_coords_def fold_decimate_step)

lemma simplify_coords_Inr:
  "simplify_coords coords = Inr s \<Longrightarrow> \<exists>c cs. coords = c # cs \<and> s = c # decimate_from c cs"
  by (cases coords) (auto simp: simplify_coords_Cons)

lemma decimate_from_subseq: "subseq (decimate_from p qs) qs"
  by (induction p qs rule: decimate_from.induct) auto

lemma decimate_from_successively:
  "successively far_apart (p # decimate_from p qs)"
proof (induction p qs rule: decimate_from.induct)
  case (1 p)
  then show ?case by simp
next
  case (2 p q qs)
  then show ?case
    by (auto simp: far_apart_def vec2_distance_commute successively_Cons)
qed

lemma decimate_from_cover:
  "q \<in> set qs \<Longrightarrow> \<exists>r \<in> set (p # decimate_from p qs). vec2_distance q r \<le> decimation_eps"
proof (induction p qs rule: decimate_from.induct)
  case (1 p)
  then show ?case by simp
next
  case (2 p q' qs)
  then show ?case by (cases "q = q'") (auto simp: less_imp_le split: if_splits)
qed

lemma decimate_from_far:
  "successively far_apart (p # qs) \<Longrightarrow> decimate_from p qs = qs"
  by (induction p qs rule: decimate_from.induct)
     (auto simp: far_apart_def vec2_distance_commute successively_Cons)

lemma decimate_from_near:
  "\<forall>q \<in> set qs. vec2_distance q p \<le> decimation_eps \<Longrightarrow> decimate_from p qs = []"
  by (induction qs) auto


lemma vec2_distance_flip_y: "vec2_distance (flip_y z) (flip_y w) = cmod (z - w)"
  by (simp add: vec2_distance_def flip_y_def norm_complex_def power2_commute)

lemma sample_ts_pos:
  "0 < samples \<Longrightarrow>
   sample_ts samples = Inr (map (\<lambda>i. real i / real_of_int samples) [0..<nat samples + 1])"
  by (simp add: sample_ts_def py_range_def nat_add_distrib)

lemma fold_sample_segment:
  "sample_ts samples = Inr ts \<Longrightarrow>
   fold_err (sample_segment samples) path acc =
     Inr (acc @ concat (map (\<lambda>seg. map (\<lambda>t. flip_y (seg_point seg t)) ts) path))"
  by (induction path arbitrary: acc) (simp_all add: sample_segment_def)

lemma svg_path_to_dxf_coords_eq:
  "0 < samples \<Longrightarrow>
   svg_path_to_dxf_coords path samples =
     Inr (concat (map (\<lambda>seg. map (\<lambda>i. flip_y (seg_point seg (real i / real_of_int samples)))
                                 [0..<nat samples + 1]) path))"
  by (simp add: svg_path_to_dxf_coords_def fold_sample_segment[OF sample_ts_pos] comp_def)




lemma line_coords:
  "0 < samples \<Longrightarrow> svg_path_to_dxf_coords [Line a b] samples = Inr coords \<Longrightarrow>
   coords = map (\<lambda>i. flip_y (a + (b - a) * of_real (real i / real_of_int samples))) [0..<nat samples + 1]"
  by (simp add: svg_path_to_dxf_coords_eq del: upt_Suc)

lemma far_apart_iff [model_eval]:
  "far_apart p q =
     (1 / 100 < (fst p - fst q) * (fst p - fst q) + (snd p - snd q) * (snd p - snd q))"
  by (simp add: far_apart_def decimation_eps_lt_iff)

lemma decimate_from_code [code]:
  "decimate_from p [] = []"
  "decimate_from p (q # qs) =
     (if 1 / 100 < (fst q - fst p) * (fst q - fst p) + (snd q - snd p) * (snd q - snd p)
      then q # decimate_from q qs else decimate_from p qs)"
  by (simp_all add: decimation_eps_lt_iff)

lemmas far_apart_code [code] = far_apart_iff

lemmas sampler_eval [model_eval] =
  svg_path_to_dxf_coords_def sample_segment_def sample_ts_def py_range_def flip_y_def

subsection \<open>Decimation of a chain of sides\<close>

lemma decimate_from_append:
  "decimate_from p (xs @ ys) =
     decimate_from p xs @ decimate_from (last (p # decimate_from p xs)) ys"
  by (induction p xs rule: decimate_from.induct) auto

lemma line_samples_far:
  assumes pos: "0 < samples"
    and long: "decimation_eps * real_of_int samples < cmod (b - a)"
  shows "successively far_apart
           (map (\<lambda>i. flip_y (seg_point (Line a b) (real i / real_of_int samples))) [0..<nat samples + 1])"
proof -
  let ?f = "\<lambda>i. flip_y (a + (b - a) * of_real (real i / real_of_int samples))"
  have step: "far_apart (?f i) (?f (Suc i))" for i
  proof -
    have "a + (b - a) * of_real (real i / real_of_int samples)
          - (a + (b - a) * of_real (real (Suc i) / real_of_int samples))
          = (b - a) * of_real (- 1 / real_of_int samples)"
      by (simp add: algebra_simps add_divide_distrib)
    then have "vec2_distance (?f i) (?f (Suc i)) = cmod (b - a) / real_of_int samples"
      using pos by (simp add: vec2_distance_flip_y norm_mult norm_divide)
    with long pos show ?thesis
      by (simp add: far_apart_def pos_less_divide_eq)
  qed
  then show ?thesis
    unfolding successively_conv_nth
    by (simp del: upt_Suc add: nth_append)
qed

lemma line_samples_decimate:
  assumes pos: "0 < samples"
    and long: "decimation_eps * real_of_int samples < cmod (b - a)"
  defines "L \<equiv> map (\<lambda>i. flip_y (seg_point (Line a b) (real i / real_of_int samples))) [0..<nat samples + 1]"
  shows "decimate_from (flip_y a) L = tl L \<and> length (tl L) = nat samples \<and>
         last (flip_y a # tl L) = flip_y b"
proof -
  have L: "L = flip_y a # tl L"
    unfolding L_def by (simp del: upt_Suc add: upt_conv_Cons)
  have far: "successively far_apart L"
    unfolding L_def using line_samples_far[OF pos long] .
  have "decimate_from (flip_y a) L = decimate_from (flip_y a) (tl L)"
    by (subst L) (simp add: not_less less_imp_le)
  also have "\<dots> = tl L"
    using far L by (metis decimate_from_far)
  finally show ?thesis
    using pos L by (auto simp: L_def last_map simp del: upt_Suc)
qed

lemma polygon_decimate:
  assumes pos: "0 < samples"
  defines "S \<equiv> \<lambda>seg. map (\<lambda>i. flip_y (seg_point seg (real i / real_of_int samples))) [0..<nat samples + 1]"
  shows "successively (\<lambda>a b. decimation_eps * real_of_int samples < cmod (b - a)) (p # ps) \<Longrightarrow>
    length (decimate_from (flip_y p) (concat (map S (lines_of (p # ps))))) = length ps * nat samples \<and>
    last (flip_y p # decimate_from (flip_y p) (concat (map S (lines_of (p # ps))))) = flip_y (last (p # ps))"
proof (induction ps arbitrary: p)
  case Nil
  then show ?case by simp
next
  case (Cons q ps)
  define D where "D = decimate_from (flip_y q) (concat (map S (lines_of (q # ps))))"
  have long: "decimation_eps * real_of_int samples < cmod (q - p)"
    and rest: "successively (\<lambda>a b. decimation_eps * real_of_int samples < cmod (b - a)) (q # ps)"
    using Cons.prems by simp_all
  have line: "decimate_from (flip_y p) (S (Line p q)) = tl (S (Line p q))"
    "length (tl (S (Line p q))) = nat samples"
    "last (flip_y p # tl (S (Line p q))) = flip_y q"
    using line_samples_decimate[OF pos long] unfolding S_def by simp_all
  have IH: "length D = length ps * nat samples" "last (flip_y q # D) = flip_y (last (q # ps))"
    using Cons.IH[OF rest] unfolding D_def by simp_all
  have "decimate_from (flip_y p) (concat (map S (lines_of (p # q # ps)))) = tl (S (Line p q)) @ D"
    by (simp only: lines_of.simps list.map concat.simps decimate_from_append line(1,3) D_def)
  moreover have "last (flip_y p # tl (S (Line p q)) @ D) = flip_y (last (p # q # ps))"
    using IH(2) line(3) by (cases "D = []") auto
  ultimately show ?case
    using IH(1) line(2) by simp
qed

lemma decimate_from_repeat: "decimate_from p (p # qs) = decimate_from p qs"
  by (simp add: not_less less_imp_le)

subsection \<open>Decimation\<close>

text \<open>
  C1. Decimation invariant: in every simplified polyline, consecutive kept points are more
  than \<open>0.1\<close> apart.
\<close>

theorem simplify_coords_successively:
  "simplify_coords coords = Inr s \<Longrightarrow> successively far_apart s"
  by (cases coords) (auto simp: simplify_coords_Cons decimate_from_successively)

theorem simplify_coords_successively_witness:
  "simplify_coords [(0, 0), (1 / 20, 0), (1 / 5, 0)] = Inr [(0, 0), (1 / 5, 0)] \<and>
   successively far_apart [(0::real, 0::real), (1 / 5, 0)]"
proof -
  have h: "simplify_coords [(0, 0), (1 / 20, 0), (1 / 5, 0)] = Inr [(0::real, 0::real), (1 / 5, 0)]"
    by (simp add: simplify_coords_Cons model_eval)
  show ?thesis using h simplify_coords_successively [OF h] by simp
qed

text \<open>
  C2. Error bound of the decimation: every sampled point lies within \<open>0.1\<close> of some
  point of the simplified polyline.
\<close>

theorem simplify_coords_cover:
  "simplify_coords coords = Inr s \<Longrightarrow> \<forall>q \<in> set coords. \<exists>p \<in> set s. vec2_distance q p \<le> decimation_eps"
proof (cases coords)
  case Nil
  then show "simplify_coords coords = Inr s \<Longrightarrow> ?thesis" by (simp add: simplify_coords_def)
next
  case (Cons c cs)
  assume "simplify_coords coords = Inr s"
  with Cons have s: "s = c # decimate_from c cs" by (simp add: simplify_coords_Cons)
  show ?thesis
    unfolding Cons s using decimate_from_cover by (auto simp: less_imp_le)
qed

theorem simplify_coords_cover_witness:
  "simplify_coords [(0, 0), (1 / 20, 0), (1 / 5, 0)] = Inr [(0, 0), (1 / 5, 0)] \<and>
   (\<exists>p \<in> set [(0::real, 0::real), (1 / 5, 0)]. vec2_distance (1 / 20, 0) p \<le> decimation_eps)"
proof -
  have h: "simplify_coords [(0, 0), (1 / 20, 0), (1 / 5, 0)] = Inr [(0::real, 0::real), (1 / 5, 0)]"
    by (simp add: simplify_coords_Cons model_eval)
  have "(1 / 20, 0) \<in> set [(0::real, 0::real), (1 / 20, 0), (1 / 5, 0)]" by simp
  then show ?thesis using h simplify_coords_cover [OF h] by blast
qed

text \<open>
  C3. The decimation always keeps the first sample and returns a subsequence of the samples,
  in their order.
\<close>

theorem simplify_coords_keeps_first:
  "\<exists>s. simplify_coords (c # cs) = Inr s \<and> hd s = c \<and> subseq s (c # cs)"
  by (simp add: simplify_coords_Cons decimate_from_subseq)

text \<open>
  C4. \<open>coords[0]\<close> fails exactly on a path that produced no samples, with \<open>IndexError\<close>.
\<close>

theorem simplify_coords_error:
  "(simplify_coords coords = Inl e) = (coords = [] \<and> e = IndexError)"
  by (cases coords) (auto simp: simplify_coords_Cons simplify_coords_def)

text \<open>
  C5. The list-building loop of lines 59--62 computes the streaming decimation that keeps
  only the last kept point as state.
\<close>

theorem simplify_coords_streaming:
  "simplify_coords coords =
     (case coords of [] \<Rightarrow> Inl IndexError | c # cs \<Rightarrow> Inr (c # decimate_from c cs))"
  by (cases coords) (simp_all add: simplify_coords_Cons)

text \<open>C6. Simplifying a simplified polyline again changes nothing.\<close>

theorem simplify_coords_idempotent:
  "simplify_coords coords = Inr s \<Longrightarrow> simplify_coords s = Inr s"
proof (cases coords)
  case Nil
  then show "simplify_coords coords = Inr s \<Longrightarrow> ?thesis" by (simp add: simplify_coords_def)
next
  case (Cons c cs)
  assume "simplify_coords coords = Inr s"
  with Cons have s: "s = c # decimate_from c cs" by (simp add: simplify_coords_Cons)
  have "decimate_from c (decimate_from c cs) = decimate_from c cs"
    by (rule decimate_from_far) (rule decimate_from_successively)
  then show ?thesis by (simp add: s simplify_coords_Cons)
qed

theorem simplify_coords_idempotent_witness:
  "simplify_coords [(0, 0), (1 / 20, 0), (1 / 5, 0)] = Inr [(0, 0), (1 / 5, 0)] \<and>
   simplify_coords [(0::real, 0::real), (1 / 5, 0)] = Inr [(0, 0), (1 / 5, 0)]"
proof -
  have h: "simplify_coords [(0, 0), (1 / 20, 0), (1 / 5, 0)] = Inr [(0::real, 0::real), (1 / 5, 0)]"
    by (simp add: simplify_coords_Cons model_eval)
  show ?thesis using h simplify_coords_idempotent [OF h] by simp
qed

subsection \<open>Sampling\<close>

text \<open>
  C7. With a positive sample count \<open>n\<close>, a path of \<open>k\<close> segments yields exactly
  \<open>k * (n + 1)\<close> points: the shared endpoints of consecutive segments are sampled twice.
\<close>

theorem svg_path_to_dxf_coords_length:
  "0 < samples \<Longrightarrow> svg_path_to_dxf_coords path samples = Inr coords \<Longrightarrow>
   length coords = length path * (nat samples + 1)"
proof -
  assume pos: "0 < samples" and res: "svg_path_to_dxf_coords path samples = Inr coords"
  from res pos have "coords = concat (map (\<lambda>seg. map (\<lambda>i. flip_y (seg_point seg (real i / real_of_int samples)))
                                 [0..<nat samples + 1]) path)"
    by (simp add: svg_path_to_dxf_coords_eq del: upt_Suc)
  then show ?thesis
    by (simp add: length_concat comp_def sum_list_triv del: upt_Suc)
qed

theorem svg_path_to_dxf_coords_length_witness:
  "0 < (2::int) \<and> svg_path_to_dxf_coords [Line 0 1, Line 1 \<i>] 2 = Inr
     [(0, 0), (1 / 2, 0), (1, 0), (1, 0), (1 / 2, - (1 / 2)), (0, - 1)] \<and>
   length [(0::real, 0::real), (1 / 2, 0), (1, 0), (1, 0), (1 / 2, - (1 / 2)), (0, - 1)] =
     length [Line 0 1, Line 1 \<i>] * (nat 2 + 1)"
proof -
  have h: "svg_path_to_dxf_coords [Line 0 1, Line 1 \<i>] 2 = Inr
     [(0, 0), (1 / 2, 0), (1, 0), (1, 0), (1 / 2, - (1 / 2)), (0, - 1)]"
    by (simp add: model_eval upt_rec complex_eq_iff)
  show ?thesis using h svg_path_to_dxf_coords_length [OF _ h] by simp
qed

text \<open>
  C8. Coordinate invariant: every emitted point \<open>(x, y)\<close> is the flip of a point of a
  segment of the path at a parameter in \<open>[0, 1]\<close>: the segment passes through
  \<open>x - y i\<close>, that is, the emitted \<open>y\<close> is the negated imaginary part.
\<close>

theorem svg_path_to_dxf_coords_flip:
  assumes "svg_path_to_dxf_coords path samples = Inr coords" and "(x, y) \<in> set coords"
  shows "\<exists>seg \<in> set path. \<exists>t. 0 \<le> t \<and> t \<le> 1 \<and> seg_point seg t = Complex x (- y)"
proof (cases "samples = 0")
  case True
  with assms(1) have "coords = []"
    by (cases path) (auto simp: svg_path_to_dxf_coords_def sample_segment_def sample_ts_def)
  with assms(2) show ?thesis by simp
next
  case False
  then obtain ts where ts: "sample_ts samples = Inr ts" by (simp add: sample_ts_def)
  have ts_range: "0 \<le> t \<and> t \<le> 1" if "t \<in> set ts" for t
  proof -
    from False ts that obtain x where x: "x < nat (samples + 1)"
      and t: "t = real x / real_of_int samples"
      by (auto simp: sample_ts_def py_range_def)
    from x False have "0 < samples" and "int x \<le> samples" by linarith+
    then have "0 < real_of_int samples" and "real x \<le> real_of_int samples"
      by linarith+
    with t show ?thesis by simp
  qed
  from assms(1) ts have "coords = concat (map (\<lambda>seg. map (\<lambda>t. flip_y (seg_point seg t)) ts) path)"
    by (simp add: svg_path_to_dxf_coords_def fold_sample_segment)
  with assms(2) obtain seg t where "seg \<in> set path" "t \<in> set ts" "flip_y (seg_point seg t) = (x, y)"
    by auto
  with ts_range show ?thesis
    by (metis complex_surj flip_y_def fst_conv snd_conv minus_minus prod.inject)
qed

theorem svg_path_to_dxf_coords_flip_witness:
  "svg_path_to_dxf_coords [Line 0 (Complex 1 2)] 2 = Inr [(0, 0), (1 / 2, - 1), (1, - 2)] \<and>
   (\<exists>seg \<in> set [Line 0 (Complex 1 2)]. \<exists>t. 0 \<le> t \<and> t \<le> 1 \<and> seg_point seg t = Complex 1 (- (- 2)))"
proof -
  have h: "svg_path_to_dxf_coords [Line 0 (Complex 1 2)] 2 = Inr [(0, 0), (1 / 2, - 1), (1, - 2)]"
    by (simp add: model_eval upt_rec)
  have m: "(1, - 2) \<in> set [(0::real, 0::real), (1 / 2, - 1), (1, - 2)]" by simp
  show ?thesis using h svg_path_to_dxf_coords_flip [OF h m] by simp
qed

text \<open>
  C9. \<open>samples = 0\<close> raises \<open>ZeroDivisionError\<close> as soon as the path has a segment;
  a path without segments gives no samples.
\<close>

theorem svg_path_to_dxf_coords_zero:
  "svg_path_to_dxf_coords path 0 = (if path = [] then Inr [] else Inl ZeroDivisionError)"
  by (cases path) (simp_all add: svg_path_to_dxf_coords_def sample_segment_def sample_ts_def)

text \<open>
  C10. A straight segment longer than \<open>0.1 * n\<close> keeps all its \<open>n + 1\<close> samples: the
  decimation does not reduce a line to its two endpoints.
\<close>

theorem line_segment_all_kept:
  assumes pos: "0 < samples"
    and long: "decimation_eps * real_of_int samples < cmod (b - a)"
    and res: "svg_path_to_dxf_coords [Line a b] samples = Inr coords"
  shows "simplify_coords coords = Inr coords \<and> length coords = nat samples + 1"
proof -
  have coords: "coords = map (\<lambda>i. flip_y (seg_point (Line a b) (real i / real_of_int samples)))
                           [0..<nat samples + 1]"
    using line_coords[OF pos res] by simp
  have "successively far_apart coords"
    unfolding coords using line_samples_far[OF pos long] .
  moreover obtain c cs where cs: "coords = c # cs"
    using coords by (simp del: upt_Suc add: upt_conv_Cons)
  moreover have "length coords = nat samples + 1"
    using coords by (simp del: upt_Suc)
  ultimately show ?thesis
    by (simp add: simplify_coords_Cons decimate_from_far)
qed

theorem line_segment_all_kept_witness:
  "0 < (4::int) \<and> decimation_eps * real_of_int 4 < cmod (1 - 0) \<and>
   svg_path_to_dxf_coords [Line 0 1] 4 = Inr [(0, 0), (1 / 4, 0), (1 / 2, 0), (3 / 4, 0), (1, 0)] \<and>
   simplify_coords [(0, 0), (1 / 4, 0), (1 / 2, 0), (3 / 4, 0), (1, 0)] =
     Inr [(0, 0), (1 / 4, 0), (1 / 2, 0), (3 / 4, 0), (1, 0)] \<and>
   length [(0::real, 0::real), (1 / 4, 0), (1 / 2, 0), (3 / 4, 0), (1, 0)] = nat 4 + 1"
proof -
  have h1: "decimation_eps * real_of_int 4 < cmod (1 - 0)" by (simp add: decimation_eps_def)
  have h2: "svg_path_to_dxf_coords [Line 0 1] 4 = Inr [(0, 0), (1 / 4, 0), (1 / 2, 0), (3 / 4, 0), (1, 0)]"
    by (simp add: model_eval upt_rec)
  show ?thesis using h1 h2 line_segment_all_kept [OF _ h1 h2] by simp
qed

text \<open>
  C11. A straight segment no longer than \<open>0.1\<close> collapses to its start point, a single
  point, so the path is discarded: the decimation does not keep both endpoints.
\<close>

theorem line_segment_short_single:
  assumes pos: "0 < samples"
    and short: "cmod (b - a) \<le> decimation_eps"
    and res: "svg_path_to_dxf_coords [Line a b] samples = Inr coords"
  shows "simplify_coords coords = Inr [flip_y a]"
proof -
  let ?f = "\<lambda>i. flip_y (a + (b - a) * of_real (real i / real_of_int samples))"
  have coords: "coords = ?f 0 # map ?f [1..<nat samples + 1]"
    using line_coords[OF pos res] by (simp del: upt_Suc add: upt_rec)
  have near: "vec2_distance (?f i) (flip_y a) \<le> decimation_eps" if "i \<in> set [1..<nat samples + 1]" for i
  proof -
    from that pos have t: "real i / real_of_int samples \<le> 1"
      by (simp add: divide_le_eq_1) linarith
    have "vec2_distance (?f i) (flip_y a) = cmod (b - a) * (real i / real_of_int samples)"
      using pos by (simp add: vec2_distance_flip_y norm_mult norm_divide)
    also have "\<dots> \<le> cmod (b - a)"
      using t by (metis mult_left_le norm_ge_zero times_divide_eq_right)
    finally show ?thesis using short by simp
  qed
  have "decimate_from (flip_y a) (map ?f [1..<nat samples + 1]) = []"
    by (rule decimate_from_near) (use near in auto)
  then show ?thesis
    unfolding coords by (simp add: simplify_coords_Cons del: upt_Suc)
qed

theorem line_segment_short_single_witness:
  "0 < (2::int) \<and> cmod (1 / 20 - 0) \<le> decimation_eps \<and>
   svg_path_to_dxf_coords [Line 0 (1 / 20)] 2 = Inr [(0, 0), (1 / 40, 0), (1 / 20, 0)] \<and>
   simplify_coords [(0, 0), (1 / 40, 0), (1 / 20, 0)] = Inr [flip_y 0]"
proof -
  have h1: "cmod (1 / 20 - 0) \<le> decimation_eps" by (simp add: decimation_eps_def)
  have h2: "svg_path_to_dxf_coords [Line 0 (1 / 20)] 2 = Inr [(0, 0), (1 / 40, 0), (1 / 20, 0)]"
    by (simp add: model_eval upt_rec)
  show ?thesis using h1 h2 line_segment_short_single [OF _ h1 h2] by simp
qed

subsection \<open>Polygons\<close>

text \<open>
  C31. A polygon of \<open>k\<close> straight sides, each longer than \<open>0.1\<close> times the sample count
  \<open>n\<close>, is sampled and simplified to exactly \<open>1 + k * n\<close> points, from its first vertex
  to its last: the greedy decimation drops only the repeated vertex at the start of each
  side. For a closed polygon the polyline's last point is its first.
\<close>

theorem polygon_vertices:
  assumes pos: "0 < samples" and ps: "ps \<noteq> []"
    and sides: "successively (\<lambda>a b. decimation_eps * real_of_int samples < cmod (b - a)) (p # ps)"
  shows "\<exists>coords s. svg_path_to_dxf_coords (lines_of (p # ps)) samples = Inr coords \<and>
           simplify_coords coords = Inr s \<and> length s = 1 + length ps * nat samples \<and>
           hd s = flip_y p \<and> last s = flip_y (last ps)"
proof -
  define S where "S = (\<lambda>seg. map (\<lambda>i. flip_y (seg_point seg (real i / real_of_int samples))) [0..<nat samples + 1])"
  define C where "C = concat (map S (lines_of (p # ps)))"
  obtain C' where C': "C = flip_y p # C'"
    using ps by (cases ps) (simp_all add: C_def S_def upt_conv_Cons del: upt_Suc)
  have coords: "svg_path_to_dxf_coords (lines_of (p # ps)) samples = Inr C"
    unfolding C_def S_def using svg_path_to_dxf_coords_eq[OF pos] .
  have "simplify_coords C = Inr (flip_y p # decimate_from (flip_y p) C)"
    by (simp only: C' simplify_coords_Cons decimate_from_repeat)
  moreover note polygon_decimate[OF pos, of p ps, folded S_def C_def, OF sides]
  ultimately show ?thesis
    using coords ps by auto
qed

theorem polygon_vertices_witness:
  "0 < (40::int) \<and> [10, 10 + 10 * \<i>, 10 * \<i>, 0] \<noteq> [] \<and>
   successively (\<lambda>a b. decimation_eps * real_of_int 40 < cmod (b - a)) [0, 10, 10 + 10 * \<i>, 10 * \<i>, 0] \<and>
   (\<exists>coords s. svg_path_to_dxf_coords (lines_of [0, 10, 10 + 10 * \<i>, 10 * \<i>, 0]) 40 = Inr coords \<and>
      simplify_coords coords = Inr s \<and> length s = 1 + length [10, 10 + 10 * \<i>, 10 * \<i>, 0::complex] * nat 40 \<and>
      hd s = flip_y 0 \<and> last s = flip_y (last [10, 10 + 10 * \<i>, 10 * \<i>, 0]))"
proof -
  have sides: "successively (\<lambda>a b. decimation_eps * real_of_int 40 < cmod (b - a)) [0, 10, 10 + 10 * \<i>, 10 * \<i>, 0]"
    by (simp add: decimation_eps_def norm_mult)
  show ?thesis
    using polygon_vertices[OF _ _ sides] sides by simp
qed

end
