(* ===== verification/Raster.thy ===== *)
theory Raster
  imports Prelude
begin

text \<open>
  The pixel arithmetic of \<open>convert_to_pbm\<close> (\<open>src/linux_cadtrace.py\<close>, lines 13--14):
  the conversion of the opened image to 8-bit grayscale (\<open>.convert('L')\<close>) and the
  binarisation \<open>img.point(lambda x: 0 if x < 128 else 255, '1')\<close>. Images are grids
  (lists of rows) of 8-bit words; the grayscale conversion of an RGB pixel is Pillow's
  fixed-point ITU-R 601-2 formula, computed in 32-bit arithmetic.
\<close>

unbundle bit_operations_syntax

text \<open>The image modes the model distinguishes: grayscale, RGB and the bilevel mode \<open>'1'\<close>.\<close>

datatype image =
    ImgL "byte list list"
  | ImgRGB "(byte \<times> byte \<times> byte) list list"
  | Img1 "byte list list"

text \<open>Pillow's \<open>rgb2l\<close>: \<open>(r * 19595 + g * 38470 + b * 7471 + 0x8000) >> 16\<close>.\<close>

definition rgb2l :: "byte \<times> byte \<times> byte \<Rightarrow> byte" where
  "rgb2l px = (case px of (r, g, b) \<Rightarrow>
     ucast (drop_bit 16 (ucast r * 19595 + ucast g * 38470 + ucast b * 7471 + 0x8000 :: 32 word)))"

text \<open>
  \<open>.convert('L')\<close> (line 13): the grayscale grid of an image of any modelled mode; from
  the bilevel mode Pillow maps every non-zero value to 255.
\<close>

fun convert_L :: "image \<Rightarrow> byte list list" where
  "convert_L (ImgL px) = px"
| "convert_L (ImgRGB px) = map (map rgb2l) px"
| "convert_L (Img1 px) = map (map (\<lambda>v. if v = 0 then 0 else 255)) px"

text \<open>The lambda of line 14.\<close>

definition threshold :: "byte \<Rightarrow> byte" where
  "threshold x = (if x < 128 then 0 else 255)"

text \<open>\<open>img.point(lut, '1')\<close> on a grayscale grid: the bilevel image of the mapped values.\<close>

definition point_1 :: "(byte \<Rightarrow> byte) \<Rightarrow> byte list list \<Rightarrow> image" where
  "point_1 lut px = Img1 (map (map lut) px)"

subsection \<open>Bits of a byte\<close>

lemma byte_lt_128_iff_bit7: "(x < 128) = (\<not> bit x 7)" for x :: byte
proof -
  have n: "unat x < 256" using unsigned_less[of x] by simp
  have "(x < 128) = (unat x < 128)" by (simp add: word_less_nat_alt)
  moreover have "bit x 7 = bit (unat x) 7"
    by (simp add: bit_unsigned_iff)
  moreover have "bit (unat x) 7 = odd (unat x div 128)"
    by (simp add: bit_iff_odd)
  moreover have "odd (unat x div 128) = (128 \<le> unat x)"
    using n by (auto simp: odd_iff_mod_2_eq_one)
  ultimately show ?thesis by linarith
qed

lemma bit_byte_255: "bit (255 :: byte) n = (n < 8)"
proof (cases "n < 8")
  case True
  then have "n \<in> {0, 1, 2, 3, 4, 5, 6, 7}" by auto
  then show ?thesis by auto
next
  case False
  then show ?thesis using bit_imp_le_length[of "255 :: byte" n] by auto
qed

subsection \<open>Binarisation\<close>

text \<open>
  C18. The threshold is the arithmetic shift right by 7: a pixel turns black exactly when
  its most significant bit is clear.
\<close>

theorem threshold_signed_drop_bit:
  "threshold x = signed_drop_bit 7 x"
proof (rule bit_word_eqI)
  fix n assume n: "n < LENGTH(8)"
  have l: "bit (threshold x) n = bit x 7"
    using n bit_byte_255[of n] by (auto simp: threshold_def byte_lt_128_iff_bit7)
  have r: "bit (signed_drop_bit 7 x) n = bit x 7"
    using n by (cases "n = 0") (auto simp: bit_signed_drop_bit_iff)
  show "bit (threshold x) n = bit (signed_drop_bit 7 x) n" by (simp only: l r)
qed

end
