(* ===== verification/PyLib.thy ===== *)
theory PyLib
  imports Prelude
begin

text \<open>
  The Python string and path primitives that \<open>src/linux_cadtrace.py\<close> uses to derive
  its file names: \<open>str.replace\<close> (lines 20 and 91), which replaces every
  non-overlapping occurrence from the left, and \<open>os.path.splitext\<close> (line 15), as
  \<open>posixpath\<close> implements it: the extension starts at the last dot after the last
  slash, unless only dots precede it in the file name. These are library functions; they
  are modelled from CPython's definitions so that the file-name claims are about the
  strings the program really computes.
\<close>

text \<open>\<open>s.replace(old, new)\<close>; an empty \<open>old\<close> inserts \<open>new\<close> around every character.\<close>

function py_replace :: "string \<Rightarrow> string \<Rightarrow> string \<Rightarrow> string" where
  "py_replace [] old new = (if old = [] then new else [])"
| "py_replace (c # cs) old new =
     (if old = [] then new @ c # py_replace cs old new
      else if prefix old (c # cs) then new @ py_replace (drop (length old) (c # cs)) old new
      else c # py_replace cs old new)"
  by pat_completeness auto
termination
  by (relation "measure (\<lambda>(s, old, new). length s)") auto

text \<open>A word no proper prefix of which is also a suffix: its occurrences cannot overlap.\<close>

definition unbordered :: "string \<Rightarrow> bool" where
  "unbordered w \<longleftrightarrow> (\<forall>k. 0 < k \<and> k < length w \<longrightarrow> take k w \<noteq> drop (length w - k) w)"

text \<open>\<open>s.rfind(c)\<close>: the index of the last occurrence, \<open>-1\<close> if there is none.\<close>

fun py_rfind :: "char \<Rightarrow> string \<Rightarrow> int" where
  "py_rfind c [] = -1"
| "py_rfind c (x # xs) = (let r = py_rfind c xs in if 0 \<le> r then r + 1 else if x = c then 0 else -1)"

text \<open>The loop of \<open>genericpath._splitext\<close> that skips the leading dots of the file name.\<close>

function splitext_scan :: "string \<Rightarrow> int \<Rightarrow> int \<Rightarrow> bool" where
  "splitext_scan p filenameIndex dotIndex =
     (if filenameIndex < dotIndex then
        (if p ! nat filenameIndex \<noteq> CHR ''.'' then True
         else splitext_scan p (filenameIndex + 1) dotIndex)
      else False)"
  by pat_completeness auto
termination
  by (relation "measure (\<lambda>(p, i, d). nat (d - i))") auto

text \<open>\<open>posixpath.splitext(p)\<close>.\<close>

definition py_splitext :: "string \<Rightarrow> string \<times> string" where
  "py_splitext p =
     (let sepIndex = py_rfind CHR ''/'' p; dotIndex = py_rfind CHR ''.'' p in
      if sepIndex < dotIndex \<and> splitext_scan p (sepIndex + 1) dotIndex
      then (take (nat dotIndex) p, drop (nat dotIndex) p)
      else (p, []))"

text \<open>
  \<open>os.path.dirname(p)\<close> as \<open>posixpath\<close> implements it: the part up to the last slash,
  with its trailing slashes removed unless it consists of slashes only.
\<close>

definition py_dirname :: "string \<Rightarrow> string" where
  "py_dirname p =
     (let i = py_rfind CHR ''/'' p + 1; head = take (nat i) p in
      if head \<noteq> [] \<and> head \<noteq> replicate (length head) CHR ''/''
      then rev (dropWhile (\<lambda>c. c = CHR ''/'') (rev head)) else head)"

declare splitext_scan.simps [simp del]

declare py_replace.simps [simp del]

lemma py_replace_Cons_match:
  "old \<noteq> [] \<Longrightarrow> prefix old (c # cs) \<Longrightarrow>
   py_replace (c # cs) old new = new @ py_replace (drop (length old) (c # cs)) old new"
  by (simp add: py_replace.simps(2))

lemma py_replace_Cons_skip:
  "old \<noteq> [] \<Longrightarrow> \<not> prefix old (c # cs) \<Longrightarrow>
   py_replace (c # cs) old new = c # py_replace cs old new"
  by (simp add: py_replace.simps(2))

lemma py_replace_Nil: "old \<noteq> [] \<Longrightarrow> py_replace [] old new = []"
  by (simp add: py_replace.simps(1))

lemma unbordered_prefix_append:
  assumes "unbordered old" and "a \<noteq> []" and "prefix old (a @ old)"
  shows "prefix old a"
proof (rule ccontr)
  assume np: "\<not> prefix old a"
  from assms(3) obtain z where z: "a @ old = old @ z" by (auto simp: prefix_def)
  have short: "length a < length old"
  proof (rule ccontr)
    assume "\<not> length a < length old"
    then have "take (length old) (a @ old) = take (length old) a" by simp
    with z have "old = take (length old) a" by simp
    then have "prefix old a" by (metis take_is_prefix)
    with np show False ..
  qed
  let ?k = "length old - length a"
  from z have "drop (length a) (a @ old) = drop (length a) (old @ z)" by simp
  then have "old = drop (length a) old @ z" using short by simp
  then have "take ?k old = drop (length a) old"
    by (metis append_eq_conv_conj length_drop)
  moreover have "drop (length a) old = drop (length old - ?k) old" using short by simp
  moreover have "0 < length a" using assms(2) by simp
  then have "0 < ?k \<and> ?k < length old" using short by linarith
  then have "0 < ?k" "?k < length old" by simp_all
  ultimately show False using assms(1) unfolding unbordered_def by metis
qed

lemma py_replace_append_unbordered:
  assumes "old \<noteq> []" and "unbordered old"
  shows "py_replace (a @ old) old new = py_replace a old new @ new"
proof (induction a rule: length_induct)
  case (1 a)
  show ?case
  proof (cases a)
    case Nil
    have "prefix old (old @ [])" by simp
    then have "py_replace (old @ []) old new = new @ py_replace [] old new"
      using assms(1) by (cases old) (simp_all add: py_replace_Cons_match)
    with Nil assms(1) show ?thesis by (simp add: py_replace_Nil)
  next
    case (Cons c a')
    show ?thesis
    proof (cases "prefix old (a @ old)")
      case True
      with assms(2) Cons have p: "prefix old a" by (simp add: unbordered_prefix_append)
      then have le: "length old \<le> length a" by (rule prefix_length_le)
      have shorter: "length (drop (length old) a) < length a"
        using assms(1) le by (cases old) auto
      have d: "drop (length old) (a @ old) = drop (length old) a @ old" using le by simp
      have "py_replace (a @ old) old new = new @ py_replace (drop (length old) (a @ old)) old new"
        using Cons True assms(1) py_replace_Cons_match[of old c "a' @ old" new] by simp
      also have "\<dots> = new @ py_replace (drop (length old) a @ old) old new"
        by (simp only: d)
      also have "\<dots> = new @ py_replace (drop (length old) a) old new @ new"
        using "1" shorter by simp
      also have "\<dots> = py_replace a old new @ new"
        using Cons p assms(1) by (simp add: py_replace_Cons_match)
      finally show ?thesis .
    next
      case False
      then have np: "\<not> prefix old (c # a')" using Cons by (metis prefix_prefix)
      have "py_replace (a @ old) old new = c # py_replace (a' @ old) old new"
        using Cons False assms(1) by (simp add: py_replace_Cons_skip)
      also have "\<dots> = c # py_replace a' old new @ new"
        using "1" Cons by simp
      also have "\<dots> = py_replace a old new @ new"
        using Cons np assms(1) by (simp add: py_replace_Cons_skip)
      finally show ?thesis .
    qed
  qed
qed

lemma prefix_append_occurrence:
  assumes "unbordered old" and "a \<noteq> []" and "prefix old (a @ old @ rest)"
  shows "prefix old a"
proof -
  have "prefix old (a @ old)"
  proof (cases "length old \<le> length a")
    case True
    then show ?thesis using assms(3)
      by (metis append.assoc prefix_append prefix_length_prefix prefix_order.order_refl)
  next
    case False
    then have "length old \<le> length (a @ old)" by simp
    then show ?thesis using assms(3)
      by (metis append.assoc prefix_append prefix_length_prefix prefix_order.order_refl)
  qed
  then show ?thesis using unbordered_prefix_append[OF assms(1,2)] by blast
qed

lemma py_replace_append_occ:
  assumes "old \<noteq> []" and "unbordered old" and "\<not> sublist old d"
  shows "py_replace (d @ old @ rest) old new = d @ new @ py_replace rest old new"
  using assms(3)
proof (induction d)
  case Nil
  obtain c cs where "old = c # cs" using assms(1) by (cases old) auto
  then show ?case by (simp add: py_replace_Cons_match)
next
  case (Cons c d)
  have "\<not> prefix old (c # d)" using Cons.prems by (auto dest: prefix_imp_sublist)
  then have "\<not> prefix old (c # d @ old @ rest)"
    using prefix_append_occurrence[OF assms(2), of "c # d" rest] by auto
  moreover have "\<not> sublist old d" using Cons.prems by (simp add: sublist_Cons_right)
  ultimately show ?case using Cons.IH assms(1) by (simp add: py_replace_Cons_skip)
qed

lemma pbm_unbordered: "unbordered ''.pbm''"
  by (auto simp: unbordered_def less_Suc_eq numeral_eq_Suc)

lemma svg_unbordered: "unbordered ''.svg''"
  by (auto simp: unbordered_def less_Suc_eq numeral_eq_Suc)

lemma py_replace_no_occurrence:
  "old \<noteq> [] \<Longrightarrow> \<not> sublist old s \<Longrightarrow> py_replace s old new = s"
proof (induction s)
  case Nil
  then show ?case by (simp add: py_replace_Nil)
next
  case (Cons c cs)
  then have "\<not> prefix old (c # cs)" by (auto dest: prefix_imp_sublist)
  moreover have "\<not> sublist old cs" using Cons.prems(2) by (simp add: sublist_Cons_right)
  ultimately show ?case using Cons by (simp add: py_replace_Cons_skip)
qed


lemma py_rfind_snoc:
  "py_rfind c (xs @ [x]) = (if x = c then int (length xs) else py_rfind c xs)"
  by (induction xs) (auto simp: Let_def)

lemma py_rfind_append_notin:
  "c \<notin> set ys \<Longrightarrow> py_rfind c (xs @ ys) = py_rfind c xs"
proof (induction ys rule: rev_induct)
  case Nil
  then show ?case by simp
next
  case (snoc y ys)
  then have "y \<noteq> c" by auto
  then have "py_rfind c ((xs @ ys) @ [y]) = py_rfind c (xs @ ys)"
    by (simp only: py_rfind_snoc if_False)
  with snoc show ?case by simp
qed

lemma py_rfind_bounds: "- 1 \<le> py_rfind c xs \<and> py_rfind c xs < int (length xs)"
  by (induction xs) (auto simp: Let_def)

lemma py_rfind_notin: "c \<notin> set xs \<Longrightarrow> py_rfind c xs = -1"
  by (induction xs) (auto simp: Let_def)

lemma py_dirname_no_slash: "CHR ''/'' \<notin> set p \<Longrightarrow> py_dirname p = []"
  by (simp add: py_dirname_def py_rfind_notin)

lemma py_dirname_shorter:
  assumes "p \<noteq> []" and "last p \<noteq> CHR ''/''"
  shows "length (py_dirname p) < length p"
proof -
  obtain xs x where p: "p = xs @ [x]" and x: "x \<noteq> CHR ''/''"
    using assms by (metis append_butlast_last_id)
  then have "py_rfind CHR ''/'' p + 1 \<le> int (length xs)"
    using py_rfind_bounds[of "CHR ''/''" xs] by (simp add: py_rfind_snoc)
  moreover define h where "h = take (nat (py_rfind CHR ''/'' p + 1)) p"
  ultimately have "length h < length p"
    using p by simp
  have "py_dirname p = (if h \<noteq> [] \<and> h \<noteq> replicate (length h) CHR ''/''
                        then rev (dropWhile (\<lambda>c. c = CHR ''/'') (rev h)) else h)"
    unfolding py_dirname_def h_def Let_def ..
  then have "length (py_dirname p) \<le> length h"
    using length_dropWhile_le[of "\<lambda>c. c = CHR ''/''" "rev h"] by simp
  with \<open>length h < length p\<close> show ?thesis by simp
qed

lemma py_dirname_append:
  assumes "a \<noteq> []" and "last a \<noteq> CHR ''/''" and "CHR ''/'' \<notin> set b"
  shows "py_dirname (a @ CHR ''/'' # b) = a"
proof -
  have "py_rfind CHR ''/'' (a @ CHR ''/'' # b) = int (length a)"
    using assms(3) py_rfind_append_notin[of "CHR ''/''" b "a @ [CHR ''/'']"]
    by (simp add: py_rfind_snoc)
  moreover have "nat (int (length a) + 1) = Suc (length a)" by simp
  ultimately have head:
    "take (nat (py_rfind CHR ''/'' (a @ CHR ''/'' # b) + 1)) (a @ CHR ''/'' # b) = a @ [CHR ''/'']"
    by simp
  have "a @ [CHR ''/''] \<noteq> replicate (length (a @ [CHR ''/''])) CHR ''/''"
  proof
    assume eq: "a @ [CHR ''/''] = replicate (length (a @ [CHR ''/''])) CHR ''/''"
    have "last a \<in> set (a @ [CHR ''/''])" using assms(1) by simp
    then have "last a = CHR ''/''" by (subst (asm) eq) auto
    with assms(2) show False ..
  qed
  moreover obtain a' x where a: "a = a' @ [x]" "x \<noteq> CHR ''/''"
    using assms(1,2) by (metis append_butlast_last_id)
  ultimately show ?thesis
    unfolding py_dirname_def Let_def head by simp
qed

lemma py_replace_length:
  "length old = length new \<Longrightarrow> old \<noteq> [] \<Longrightarrow> length (py_replace s old new) = length s"
proof (induction s old new rule: py_replace.induct)
  case (1 old new)
  then show ?case by (simp add: py_replace_Nil)
next
  case (2 c cs old new)
  then show ?case
  proof (cases "prefix old (c # cs)")
    case True
    then have "length old \<le> Suc (length cs)" using prefix_length_le by fastforce
    with True "2.prems" "2.IH"(2) show ?thesis by (simp add: py_replace_Cons_match)
  next
    case False
    with "2.prems" "2.IH"(3) show ?thesis by (simp add: py_replace_Cons_skip)
  qed
qed

lemma ex_index_from_Suc:
  assumes "\<not> P (nat i)" "0 \<le> i"
  shows "(\<exists>k. i + 1 \<le> int k \<and> int k < d \<and> P k) = (\<exists>k. i \<le> int k \<and> int k < d \<and> P k)"
proof -
  have "int k \<noteq> i" if "P k" for k using that assms by auto
  then show ?thesis by (metis add1_zle_eq order_le_less zle_add1_eq_le)
qed

lemma splitext_scan_iff:
  "0 \<le> i \<Longrightarrow> d \<le> int (length p) \<Longrightarrow>
   splitext_scan p i d = (\<exists>k. i \<le> int k \<and> int k < d \<and> p ! k \<noteq> CHR ''.'')"
proof (induction p i d rule: splitext_scan.induct)
  case (1 p i d)
  show ?case
  proof (cases "i < d")
    case True
    show ?thesis
    proof (cases "p ! nat i \<noteq> CHR ''.''")
      case ne: True
      with True "1.prems" have "\<exists>k. i \<le> int k \<and> int k < d \<and> p ! k \<noteq> CHR ''.''"
        by (intro exI[of _ "nat i"]) simp
      with True ne show ?thesis by (simp add: splitext_scan.simps[of p i d])
    next
      case eq: False
      have "splitext_scan p (i + 1) d = (\<exists>k. i + 1 \<le> int k \<and> int k < d \<and> p ! k \<noteq> CHR ''.'')"
        using "1.IH"[OF True eq] "1.prems" by simp
      also have "\<dots> = (\<exists>k. i \<le> int k \<and> int k < d \<and> p ! k \<noteq> CHR ''.'')"
        using eq "1.prems"(1) by (rule ex_index_from_Suc)
      finally show ?thesis using True eq by (simp add: splitext_scan.simps[of p i d])
    qed
  next
    case False
    then show ?thesis by (auto simp: splitext_scan.simps[of p i d])
  qed
qed

lemma py_splitext_ext:
  assumes r: "r \<noteq> []" "last r \<noteq> CHR ''.''" "last r \<noteq> CHR ''/''"
    and e: "CHR ''.'' \<notin> set e" "CHR ''/'' \<notin> set e"
  shows "py_splitext (r @ CHR ''.'' # e) = (r, CHR ''.'' # e)"
proof -
  let ?p = "r @ CHR ''.'' # e"
  obtain r' l where rl: "r = r' @ [l]" using r(1) by (cases r rule: rev_cases) auto
  with r have l: "l \<noteq> CHR ''.''" "l \<noteq> CHR ''/''" by simp_all
  have dot: "py_rfind CHR ''.'' ?p = int (length r)"
    using py_rfind_append_notin[OF e(1), of "r @ [CHR ''.'']"] by (simp add: py_rfind_snoc)
  have "py_rfind CHR ''/'' ?p = py_rfind CHR ''/'' r'"
    using py_rfind_append_notin[of "CHR ''/''" "CHR ''.'' # e" r] e(2) l(2) rl
    by (simp add: py_rfind_snoc)
  then have sep: "py_rfind CHR ''/'' ?p < int (length r')" "- 1 \<le> py_rfind CHR ''/'' ?p"
    using py_rfind_bounds[of "CHR ''/''" r'] by simp_all
  have "?p ! length r' = l" using rl by (simp add: nth_append)
  then have "splitext_scan ?p (py_rfind CHR ''/'' ?p + 1) (py_rfind CHR ''.'' ?p)"
    using sep dot l rl by (subst splitext_scan_iff) (auto intro!: exI[of _ "length r'"])
  moreover have "py_rfind CHR ''/'' ?p < py_rfind CHR ''.'' ?p" using sep dot rl by simp
  ultimately show ?thesis by (simp add: py_splitext_def dot)
qed

end
