(* ===== verification/World.thy ===== *)
theory World
  imports Sampler Raster PyLib
begin

text \<open>
  The environment \<open>src/linux_cadtrace.py\<close> acts on, as the library calls it makes see it:
  the file system (a map from path strings to file contents), standard output (the list
  of lines printed so far, as a datatype with one constructor per \<open>print\<close> of the
  source), the DXF document of \<open>ezdxf\<close>, and the calls \<open>os.path.exists\<close>,
  \<open>Image.open\<close>, \<open>Image.save\<close>, \<open>svg2paths2\<close>, \<open>ezdxf.new\<close>,
  \<open>msp.add_lwpolyline\<close> and \<open>doc.saveas\<close>, each as a function of the world.
\<close>

text \<open>An \<open>LWPOLYLINE\<close> entity: its 2D vertices and its closed flag.\<close>

record lwpolyline =
  lw_points :: "point list"
  lw_closed :: bool

text \<open>A DXF document: its version and the entities of its modelspace, in insertion order.\<close>

record dxf_doc =
  dxfversion :: string
  modelspace :: "lwpolyline list"

text \<open>
  File contents: a directory, a raster image (any format Pillow opens, PBM included), an
  SVG file with the paths \<open>svg2paths2\<close> reads from it, a DXF drawing, or anything else.
\<close>

datatype fs_node =
    Directory
  | ImageFile image
  | SvgFile "segment list list"
  | DxfFile dxf_doc
  | OtherFile

text \<open>The lines the script prints, one constructor per \<open>print\<close> call.\<close>

datatype message =
    MsgImageNotFound
  | MsgPreprocessing string
  | MsgTracing
  | MsgPotraceFailed string
  | MsgAborting
  | MsgExporting
  | MsgDone
  | MsgExportFailed
  | MsgParsing string
  | MsgSvgError pyexc
  | MsgNoPaths
  | MsgSaved string nat
  | MsgNoValid

record world =
  files :: "string \<rightharpoonup> fs_node"
  stdout :: "message list"

text \<open>\<open>print(...)\<close>.\<close>

definition emit :: "message \<Rightarrow> world \<Rightarrow> world" where
  "emit m w = w\<lparr>stdout := stdout w @ [m]\<rparr>"

text \<open>\<open>os.path.exists(p)\<close>: true for files and directories alike.\<close>

definition path_exists :: "world \<Rightarrow> string \<Rightarrow> bool" where
  "path_exists w p \<longleftrightarrow> files w p \<noteq> None"

text \<open>\<open>Image.open(p)\<close>.\<close>

definition image_open :: "world \<Rightarrow> string \<Rightarrow> pyexc + image" where
  "image_open w p =
     (case files w p of
        None \<Rightarrow> Inl FileNotFoundError
      | Some Directory \<Rightarrow> Inl IsADirectoryError
      | Some (ImageFile img) \<Rightarrow> Inr img
      | Some _ \<Rightarrow> Inl UnidentifiedImageError)"

text \<open>
  Writing a file (\<open>Image.save\<close>, \<open>doc.saveas\<close>, both \<open>open(p, 'wb')\<close> underneath): the
  directory \<open>os.path.dirname(p)\<close> must exist (the current directory when it is empty),
  and the target must not be a directory; otherwise the write creates or replaces the file.
\<close>

definition write_file :: "string \<Rightarrow> fs_node \<Rightarrow> world \<Rightarrow> pyexc + world" where
  "write_file p f w =
     (let d = py_dirname p in
      if d \<noteq> [] \<and> files w d = None then Inl FileNotFoundError
      else if d \<noteq> [] \<and> files w d \<noteq> Some Directory then Inl NotADirectoryError
      else if files w p = Some Directory then Inl IsADirectoryError
      else Inr (w\<lparr>files := (files w)(p \<mapsto> f)\<rparr>))"

text \<open>The paths a write succeeds on: an existing parent directory, and not a directory itself.\<close>

definition writable :: "world \<Rightarrow> string \<Rightarrow> bool" where
  "writable w p \<longleftrightarrow>
     (py_dirname p = [] \<or> files w (py_dirname p) = Some Directory) \<and> files w p \<noteq> Some Directory"

text \<open>\<open>svg2paths2(p)\<close>: the paths of an SVG file; every other content raises.\<close>

definition svg2paths2 :: "world \<Rightarrow> string \<Rightarrow> pyexc + segment list list" where
  "svg2paths2 w p =
     (case files w p of
        None \<Rightarrow> Inl FileNotFoundError
      | Some Directory \<Rightarrow> Inl IsADirectoryError
      | Some (SvgFile paths) \<Rightarrow> Inr paths
      | Some _ \<Rightarrow> Inl SvgParseError)"

text \<open>\<open>ezdxf.new(dxfversion=v)\<close>: a document with an empty modelspace.\<close>

definition ezdxf_new :: "string \<Rightarrow> dxf_doc" where
  "ezdxf_new v = \<lparr>dxfversion = v, modelspace = []\<rparr>"

text \<open>\<open>msp.add_lwpolyline(points, close=c)\<close>.\<close>

definition add_lwpolyline :: "point list \<Rightarrow> bool \<Rightarrow> dxf_doc \<Rightarrow> dxf_doc" where
  "add_lwpolyline pts c doc =
     doc\<lparr>modelspace := modelspace doc @ [\<lparr>lw_points = pts, lw_closed = c\<rparr>]\<rparr>"

subsection \<open>Frame lemmas\<close>

lemma files_emit [simp]: "files (emit m w) = files w"
  by (simp add: emit_def)

lemma stdout_emit [simp]: "stdout (emit m w) = stdout w @ [m]"
  by (simp add: emit_def)

lemma svg2paths2_emit [simp]: "svg2paths2 (emit m w) p = svg2paths2 w p"
  by (simp add: svg2paths2_def)

lemma image_open_emit [simp]: "image_open (emit m w) p = image_open w p"
  by (simp add: image_open_def)

lemma path_exists_emit [simp]: "path_exists (emit m w) p = path_exists w p"
  by (simp add: path_exists_def)

lemma write_file_emit:
  "write_file p f (emit m w) = map_sum id (emit m) (write_file p f w)"
  by (simp add: write_file_def emit_def Let_def)

lemma write_file_Inr:
  "write_file p f w = Inr w' \<longleftrightarrow> writable w p \<and> w' = w\<lparr>files := (files w)(p \<mapsto> f)\<rparr>"
  by (auto simp: write_file_def writable_def Let_def)

lemma write_file_Inl: "write_file p f w = Inl e \<Longrightarrow> \<not> writable w p"
  by (auto simp: write_file_def writable_def Let_def split: if_splits)

lemma write_file_writable:
  "writable w p \<Longrightarrow> write_file p f w = Inr (w\<lparr>files := (files w)(p \<mapsto> f)\<rparr>)"
  by (simp add: write_file_Inr)

lemma writable_no_slash:
  "CHR ''/'' \<notin> set p \<Longrightarrow> writable w p \<longleftrightarrow> files w p \<noteq> Some Directory"
  by (simp add: writable_def py_dirname_no_slash)

lemma writable_stdout [simp]: "writable (w\<lparr>stdout := out\<rparr>) p = writable w p"
  by (simp add: writable_def)

lemma writable_emit [simp]: "writable (emit m w) p = writable w p"
  by (simp add: writable_def)

text \<open>
  Writing a file that is not a directory, at a path that is not a directory, keeps every
  other path writable: it cannot remove the parent directory of another path.
\<close>

lemma writable_upd:
  assumes "writable w d" and "files w a \<noteq> Some Directory" and "f \<noteq> Directory"
    and "files w' = (files w)(a \<mapsto> f)"
  shows "writable w' d"
  using assms by (auto simp: writable_def)

lemma stdout_write_file:
  "write_file p f w = Inr w' \<Longrightarrow> stdout w' = stdout w"
  by (simp add: write_file_Inr)

lemma modelspace_add_lwpolyline [simp]:
  "modelspace (add_lwpolyline pts c doc) = modelspace doc @ [\<lparr>lw_points = pts, lw_closed = c\<rparr>]"
  by (simp add: add_lwpolyline_def)

lemma dxfversion_add_lwpolyline [simp]:
  "dxfversion (add_lwpolyline pts c doc) = dxfversion doc"
  by (simp add: add_lwpolyline_def)

end
