(* ===== verification/Binarizer.thy ===== *)
theory Binarizer
  imports World PyLib
begin

text \<open>
  \<open>convert_to_pbm\<close> (\<open>src/linux_cadtrace.py\<close>, lines 12--17): open the input image,
  convert it to grayscale, binarise it at 128, and save it as a PBM file beside the input,
  at the input path with its extension replaced by \<open>.pbm\<close>. A missing, unreadable or
  directory input raises from \<open>Image.open\<close>; nothing catches it.
\<close>

text \<open>Line 15: \<open>os.path.splitext(input_image_path)[0] + ".pbm"\<close>.\<close>

definition pbm_path_of :: "string \<Rightarrow> string" where
  "pbm_path_of input_image_path = fst (py_splitext input_image_path) @ ''.pbm''"

definition convert_to_pbm :: "string \<Rightarrow> world \<Rightarrow> string outcome \<times> world" where
  "convert_to_pbm input_image_path w =
     (case image_open w input_image_path of
        Inl e \<Rightarrow> (Raise e, w)
      | Inr img \<Rightarrow>
          (let bw = point_1 threshold (convert_L img);
               pbm_path = pbm_path_of input_image_path
           in case write_file pbm_path (ImageFile bw) w of
                Inl e \<Rightarrow> (Raise e, w)
              | Inr w' \<Rightarrow> (Ret pbm_path, w')))"

lemma convert_to_pbm_Ret:
  "image_open w p = Inr img \<Longrightarrow> writable w (pbm_path_of p) \<Longrightarrow>
   convert_to_pbm p w =
     (Ret (pbm_path_of p),
      w\<lparr>files := (files w)(pbm_path_of p \<mapsto> ImageFile (point_1 threshold (convert_L img)))\<rparr>)"
  by (simp add: convert_to_pbm_def write_file_writable Let_def)

lemma convert_to_pbm_stdout:
  "convert_to_pbm p w = (r, w') \<Longrightarrow> stdout w' = stdout w"
  by (auto simp: convert_to_pbm_def Let_def write_file_Inr split: sum.splits)

lemma pbm_path_of_ext:
  "r \<noteq> [] \<Longrightarrow> last r \<noteq> CHR ''.'' \<Longrightarrow> last r \<noteq> CHR ''/'' \<Longrightarrow>
   CHR ''.'' \<notin> set e \<Longrightarrow> CHR ''/'' \<notin> set e \<Longrightarrow> pbm_path_of (r @ CHR ''.'' # e) = r @ ''.pbm''"
  by (simp add: pbm_path_of_def py_splitext_ext)

subsection \<open>Properties\<close>

text \<open>
  C19. On a readable image and a writable target, \<open>convert_to_pbm\<close> returns the derived
  path and stores there the binarised grayscale image, changing no other file.
\<close>

theorem convert_to_pbm_writes_binarised:
  assumes "image_open w p = Inr img" and "writable w (pbm_path_of p)"
  shows "fst (convert_to_pbm p w) = Ret (pbm_path_of p) \<and>
         files (snd (convert_to_pbm p w)) =
           (files w)(pbm_path_of p \<mapsto> ImageFile (Img1 (map (map threshold) (convert_L img))))"
  using convert_to_pbm_Ret[OF assms] by (simp add: point_1_def)

theorem convert_to_pbm_writes_binarised_witness:
  "fst (convert_to_pbm ''a.png'' \<lparr>files = Map.empty(''a.png'' \<mapsto> ImageFile (ImgL [[7, 200]])), stdout = []\<rparr>)
     = Ret ''a.pbm'' \<and>
   files (snd (convert_to_pbm ''a.png'' \<lparr>files = Map.empty(''a.png'' \<mapsto> ImageFile (ImgL [[7, 200]])), stdout = []\<rparr>))
     = Map.empty(''a.png'' \<mapsto> ImageFile (ImgL [[7, 200]]), ''a.pbm'' \<mapsto> ImageFile (Img1 [[0, 255]]))"
proof -
  let ?w = "\<lparr>files = Map.empty(''a.png'' \<mapsto> ImageFile (ImgL [[7, 200]])), stdout = []\<rparr>"
  have p: "pbm_path_of ''a.png'' = ''a.pbm''"
    using pbm_path_of_ext[of "''a''" "''png''"] by simp
  have h1: "image_open ?w ''a.png'' = Inr (ImgL [[7, 200]])" by (simp add: image_open_def)
  have h2: "writable ?w (pbm_path_of ''a.png'')"
    by (simp add: p writable_no_slash)
  show ?thesis
    using convert_to_pbm_writes_binarised[OF h1 h2] p by (simp add: threshold_def)
qed

text \<open>
  C20. The PBM path is the input path with its extension replaced by \<open>.pbm\<close>; in
  particular an input that already ends in \<open>.pbm\<close> is its own output path, so the
  binarised image overwrites the input file.
\<close>

theorem pbm_path_of_replaces_extension:
  assumes "r \<noteq> []" "last r \<noteq> CHR ''.''" "last r \<noteq> CHR ''/''"
    and "CHR ''.'' \<notin> set e" "CHR ''/'' \<notin> set e"
  shows "pbm_path_of (r @ CHR ''.'' # e) = r @ ''.pbm''"
  using assms by (rule pbm_path_of_ext)

theorem pbm_path_of_replaces_extension_witness:
  "pbm_path_of ''scan.pbm'' = ''scan.pbm''"
  using pbm_path_of_replaces_extension[of "''scan''" "''pbm''"] by simp

text \<open>
  C21. A missing or unreadable input makes \<open>convert_to_pbm\<close> raise the error of
  \<open>Image.open\<close>, with no file written.
\<close>

theorem convert_to_pbm_open_error:
  "image_open w p = Inl e \<Longrightarrow> convert_to_pbm p w = (Raise e, w)"
  by (simp add: convert_to_pbm_def)

theorem convert_to_pbm_open_error_witness:
  "convert_to_pbm ''d'' \<lparr>files = Map.empty(''d'' \<mapsto> Directory), stdout = []\<rparr> =
     (Raise IsADirectoryError, \<lparr>files = Map.empty(''d'' \<mapsto> Directory), stdout = []\<rparr>)"
proof -
  have h: "image_open \<lparr>files = Map.empty(''d'' \<mapsto> Directory), stdout = []\<rparr> ''d'' = Inl IsADirectoryError"
    by (simp add: image_open_def)
  show ?thesis using convert_to_pbm_open_error[OF h] .
qed

end
