(* ===== verification/Tracer.thy ===== *)
theory Tracer
  imports World PyLib
begin

text \<open>
  \<open>trace_with_potrace\<close> (\<open>src/linux_cadtrace.py\<close>, lines 10 and 19--26): run the
  external \<open>potrace\<close> binary on the PBM file, asking for SVG output at the PBM path with
  \<open>.pbm\<close> replaced by \<open>.svg\<close>, and report failure when its exit status is not zero.
  The tracer itself is not part of the repository: it is an interface, a function from
  the argument vector and the world to the exit status, the captured standard error and
  the world after the run (which may hold the SVG file it wrote), or an exception when
  the binary cannot be started. \<open>stderr.decode()\<close> decodes UTF-8 strictly; the model's
  standard error is \<open>None\<close> when the bytes are not valid UTF-8.
\<close>

type_synonym process = "string list \<Rightarrow> world \<Rightarrow> pyexc + int \<times> string option \<times> world"

text \<open>Line 10.\<close>

definition potrace_path :: string where
  "potrace_path = ''/usr/bin/potrace''"

text \<open>Line 20: \<open>pbm_path.replace(".pbm", ".svg")\<close>.\<close>

definition svg_path_of :: "string \<Rightarrow> string" where
  "svg_path_of pbm_path = py_replace pbm_path ''.pbm'' ''.svg''"

definition trace_with_potrace :: "process \<Rightarrow> string \<Rightarrow> world \<Rightarrow> string option outcome \<times> world" where
  "trace_with_potrace run pbm_path w =
     (let svg_path = svg_path_of pbm_path in
      case run [potrace_path, pbm_path, ''-s'', ''-o'', svg_path] w of
        Inl e \<Rightarrow> (Raise e, w)
      | Inr (returncode, stderr, w') \<Rightarrow>
          (if returncode \<noteq> 0 then
             (case stderr of
                None \<Rightarrow> (Raise UnicodeDecodeError, w')
              | Some msg \<Rightarrow> (Ret None, emit (MsgPotraceFailed msg) w'))
           else (Ret (Some svg_path), w')))"

lemma svg_path_of_append_pbm:
  "svg_path_of (r @ ''.pbm'') = py_replace r ''.pbm'' ''.svg'' @ ''.svg''"
  by (simp add: svg_path_of_def py_replace_append_unbordered pbm_unbordered)

lemma trace_with_potrace_ok:
  "run [potrace_path, pbm_path, ''-s'', ''-o'', svg_path_of pbm_path] w = Inr (0, err, w') \<Longrightarrow>
   trace_with_potrace run pbm_path w = (Ret (Some (svg_path_of pbm_path)), w')"
  by (simp add: trace_with_potrace_def Let_def)

subsection \<open>Properties\<close>

text \<open>
  C22. The SVG path is the PBM path with every \<open>.pbm\<close> replaced by \<open>.svg\<close>: for a PBM
  path \<open>r.pbm\<close> it is \<open>r.svg\<close> only when \<open>r\<close> contains no \<open>.pbm\<close>; otherwise the
  directories of \<open>r\<close> are rewritten too.
\<close>

theorem svg_path_of_pbm:
  "svg_path_of (r @ ''.pbm'') =
     (if sublist ''.pbm'' r then py_replace r ''.pbm'' ''.svg'' else r) @ ''.svg''"
  by (simp add: svg_path_of_append_pbm py_replace_no_occurrence)

text \<open>
  C23. The rewriting reaches directories: a PBM file \<open>r.pbm\<close> in a directory \<open>d.pbm\<close>
  (with no \<open>.pbm\<close> in \<open>d\<close> or \<open>r\<close>) is traced into \<open>d.svg/r.svg\<close>, and when no
  directory \<open>d.svg\<close> exists the tracer is asked to write to a path that cannot be
  written: the program never creates that directory.
\<close>

theorem svg_path_of_rewrites_directory:
  assumes "\<not> sublist ''.pbm'' d" and "\<not> sublist ''.pbm'' r" and "CHR ''/'' \<notin> set r"
    and "files w (d @ ''.svg'') = None"
  shows "svg_path_of (d @ ''.pbm/'' @ r @ ''.pbm'') = d @ ''.svg/'' @ r @ ''.svg'' \<and>
         \<not> writable w (svg_path_of (d @ ''.pbm/'' @ r @ ''.pbm''))"
proof -
  have "\<not> sublist ''.pbm'' (CHR ''/'' # r)"
    using assms(2) by (simp add: sublist_Cons_right)
  then have "py_replace (d @ ''.pbm'' @ CHR ''/'' # r) ''.pbm'' ''.svg'' = d @ ''.svg'' @ CHR ''/'' # r"
    using py_replace_append_occ[OF _ pbm_unbordered assms(1), of "CHR ''/'' # r" "''.svg''"]
    by (simp add: py_replace_no_occurrence)
  then have svg: "svg_path_of (d @ ''.pbm/'' @ r @ ''.pbm'') = d @ ''.svg/'' @ r @ ''.svg''"
    using svg_path_of_append_pbm[of "d @ ''.pbm'' @ CHR ''/'' # r"] by simp
  have "py_dirname ((d @ ''.svg'') @ CHR ''/'' # r @ ''.svg'') = d @ ''.svg''"
    using assms(3) by (intro py_dirname_append) simp_all
  then have "\<not> writable w (d @ ''.svg/'' @ r @ ''.svg'')"
    using assms(4) by (simp add: writable_def)
  with svg show ?thesis by simp
qed

theorem svg_path_of_rewrites_directory_witness:
  "svg_path_of ''scans.pbm/x.pbm'' = ''scans.svg/x.svg'' \<and>
   \<not> writable \<lparr>files = Map.empty(''scans.pbm'' \<mapsto> Directory), stdout = []\<rparr> (svg_path_of ''scans.pbm/x.pbm'')"
proof -
  let ?w = "\<lparr>files = Map.empty(''scans.pbm'' \<mapsto> Directory), stdout = []\<rparr>"
  have s1: "\<not> sublist ''.pbm'' ''scans''" and s2: "\<not> sublist ''.pbm'' ''x''"
    by (simp_all add: sublist_Cons_right prefix_def)
  have s3: "CHR ''/'' \<notin> set ''x''" by simp
  have s4: "files ?w (''scans'' @ ''.svg'') = None" by simp
  show ?thesis
    using svg_path_of_rewrites_directory[OF s1 s2 s3 s4] by (simp only: append_Cons append_Nil) auto
qed

text \<open>
  C24. A non-zero exit status with decodable diagnostics is reported and gives \<open>None\<close>;
  with diagnostics that are not UTF-8, \<open>stderr.decode()\<close> raises instead.
\<close>

theorem trace_with_potrace_failure:
  assumes "run [potrace_path, pbm_path, ''-s'', ''-o'', svg_path_of pbm_path] w = Inr (rc, err, w')"
    and "rc \<noteq> 0"
  shows "trace_with_potrace run pbm_path w =
           (case err of None \<Rightarrow> (Raise UnicodeDecodeError, w')
            | Some msg \<Rightarrow> (Ret None, emit (MsgPotraceFailed msg) w'))"
  using assms by (simp add: trace_with_potrace_def Let_def)

theorem trace_with_potrace_failure_witness:
  "trace_with_potrace (\<lambda>args w. Inr (1, Some ''bad input'', w)) ''a.pbm''
     \<lparr>files = Map.empty, stdout = []\<rparr> =
   (Ret None, \<lparr>files = Map.empty, stdout = [MsgPotraceFailed ''bad input'']\<rparr>)"
  using trace_with_potrace_failure[where run = "\<lambda>args w. Inr (1, Some ''bad input'', w)"
      and pbm_path = "''a.pbm''" and w = "\<lparr>files = Map.empty, stdout = []\<rparr>" and rc = 1
      and err = "Some ''bad input''" and w' = "\<lparr>files = Map.empty, stdout = []\<rparr>"]
  by (simp add: emit_def)

end
