(* ===== verification/DxfExport.thy ===== *)
theory DxfExport
  imports World
begin

text \<open>
  \<open>svg_to_dxf\<close> (\<open>src/linux_cadtrace.py\<close>, lines 36--74): parse the traced SVG, sample
  and decimate every path, add each path that keeps at least two points as a closed
  polyline, and save the document only if at least one polyline was added. The parse
  is inside \<open>try/except Exception\<close>; an exception in the loop (the \<open>IndexError\<close> of
  \<open>coords[0]\<close> on a path without segments) is not caught and ends the call.
\<close>

text \<open>One iteration of \<open>for path in paths\<close> (lines 52--66), on the document and \<open>path_count\<close>.\<close>

definition export_path :: "int \<Rightarrow> segment list \<Rightarrow> dxf_doc \<times> nat \<Rightarrow> pyexc + dxf_doc \<times> nat" where
  "export_path samples_per_curve path st =
     (case svg_path_to_dxf_coords path samples_per_curve of
        Inl e \<Rightarrow> Inl e
      | Inr coords \<Rightarrow>
          (case simplify_coords coords of
             Inl e \<Rightarrow> Inl e
           | Inr simplified \<Rightarrow>
               (if 2 \<le> length simplified
                then Inr (add_lwpolyline simplified True (fst st), Suc (snd st))
                else Inr st)))"

definition svg_to_dxf :: "int \<Rightarrow> string \<Rightarrow> string \<Rightarrow> world \<Rightarrow> bool outcome \<times> world" where
  "svg_to_dxf samples_per_curve svg_path dxf_path w0 =
     (let w = emit (MsgParsing svg_path) w0 in
      case svg2paths2 w svg_path of
        Inl e \<Rightarrow> (Ret False, emit (MsgSvgError e) w)
      | Inr paths \<Rightarrow>
          (if paths = [] then (Ret False, emit MsgNoPaths w)
           else
             (case fold_err (export_path samples_per_curve) paths (ezdxf_new ''R2010'', 0) of
                Inl e \<Rightarrow> (Raise e, w)
              | Inr (doc, path_count) \<Rightarrow>
                  (if 0 < path_count then
                     (case write_file dxf_path (DxfFile doc) w of
                        Inl e \<Rightarrow> (Raise e, w)
                      | Inr w' \<Rightarrow> (Ret True, emit (MsgSaved dxf_path path_count) w'))
                   else (Ret False, emit MsgNoValid w)))))"

subsection \<open>The abstract contract\<close>

text \<open>
  What the export promises, stated without the loop: sample each path at \<open>n + 1\<close>
  parameters per segment, decimate greedily, keep the results with two points or more.
\<close>

definition sampled :: "int \<Rightarrow> segment list \<Rightarrow> point list" where
  "sampled n path =
     concat (map (\<lambda>seg. map (\<lambda>i. flip_y (seg_point seg (real i / real_of_int n))) [0..<nat n + 1]) path)"

fun greedy :: "point list \<Rightarrow> point list" where
  "greedy [] = []"
| "greedy (c # cs) = c # decimate_from c cs"

definition spec_polylines :: "int \<Rightarrow> segment list list \<Rightarrow> point list list" where
  "spec_polylines n paths = filter (\<lambda>s. 2 \<le> length s) (map (\<lambda>p. greedy (sampled n p)) paths)"

definition spec_doc :: "int \<Rightarrow> segment list list \<Rightarrow> dxf_doc" where
  "spec_doc n paths =
     \<lparr>dxfversion = ''R2010'',
      modelspace = map (\<lambda>s. \<lparr>lw_points = s, lw_closed = True\<rparr>) (spec_polylines n paths)\<rparr>"

text \<open>A well-formed entity: closed, at least two vertices, consecutive vertices over 0.1 apart.\<close>

definition entity_wf :: "lwpolyline \<Rightarrow> bool" where
  "entity_wf e \<longleftrightarrow> lw_closed e \<and> 2 \<le> length (lw_points e) \<and> successively far_apart (lw_points e)"

subsection \<open>Lemmas\<close>

lemma sampled_nonempty: "0 < n \<Longrightarrow> path \<noteq> [] \<Longrightarrow> sampled n path \<noteq> []"
  by (cases path) (simp_all add: sampled_def del: upt_Suc)

lemma export_path_nonempty:
  assumes "0 < n" "path \<noteq> []"
  shows "export_path n path (doc, k) =
    Inr (if 2 \<le> length (greedy (sampled n path))
         then (add_lwpolyline (greedy (sampled n path)) True doc, Suc k) else (doc, k))"
proof -
  obtain c cs where cs: "sampled n path = c # cs"
    using sampled_nonempty[OF assms] by (cases "sampled n path") auto
  have "svg_path_to_dxf_coords path n = Inr (sampled n path)"
    using assms(1) by (simp add: svg_path_to_dxf_coords_eq sampled_def del: upt_Suc)
  then show ?thesis
    by (simp add: export_path_def cs simplify_coords_Cons)
qed

lemma fold_export_path:
  "0 < n \<Longrightarrow> [] \<notin> set paths \<Longrightarrow>
   fold_err (export_path n) paths (doc, k) =
     Inr (doc\<lparr>modelspace := modelspace doc @
             map (\<lambda>s. \<lparr>lw_points = s, lw_closed = True\<rparr>) (spec_polylines n paths)\<rparr>,
          k + length (spec_polylines n paths))"
proof (induction paths arbitrary: doc k)
  case Nil
  then show ?case by (simp add: spec_polylines_def)
next
  case (Cons p ps)
  then have "p \<noteq> []" by auto
  with Cons show ?case
    by (auto simp: export_path_nonempty spec_polylines_def add_lwpolyline_def)
qed

lemma export_path_wf:
  assumes "export_path n path st = Inr st'"
    and "list_all entity_wf (modelspace (fst st)) \<and> length (modelspace (fst st)) = snd st"
  shows "list_all entity_wf (modelspace (fst st')) \<and> length (modelspace (fst st')) = snd st'"
  using assms
  by (auto simp: export_path_def entity_wf_def dest!: simplify_coords_Inr
      intro: decimate_from_successively split: sum.splits if_splits)

lemma export_path_empty: "export_path n [] st = Inl IndexError"
  by (simp add: export_path_def svg_path_to_dxf_coords_def)

lemma greedy_sampled_polygon:
  assumes pos: "0 < n" and ps: "ps \<noteq> []"
    and sides: "successively (\<lambda>a b. decimation_eps * real_of_int n < cmod (b - a)) (p # ps)"
  shows "length (greedy (sampled n (lines_of (p # ps)))) = 1 + length ps * nat n"
proof -
  obtain C' where C': "sampled n (lines_of (p # ps)) = flip_y p # C'"
    using ps by (cases ps) (simp_all add: sampled_def upt_conv_Cons del: upt_Suc)
  have "greedy (sampled n (lines_of (p # ps))) =
        flip_y p # decimate_from (flip_y p) (sampled n (lines_of (p # ps)))"
    by (simp only: C' greedy.simps decimate_from_repeat)
  then show ?thesis
    using polygon_decimate[OF pos sides] by (simp add: sampled_def)
qed

lemma greedy_sampled_speck:
  assumes pos: "0 < n" and ne: "path \<noteq> []"
    and small: "\<forall>seg \<in> set path. \<forall>t. 0 \<le> t \<and> t \<le> 1 \<longrightarrow>
                  cmod (seg_point seg t - seg_point (hd path) 0) \<le> decimation_eps"
  shows "greedy (sampled n path) = [flip_y (seg_point (hd path) 0)]"
proof -
  let ?c = "flip_y (seg_point (hd path) 0)"
  obtain cs where cs: "sampled n path = ?c # cs"
    using ne by (cases path) (simp_all add: sampled_def upt_conv_Cons del: upt_Suc)
  have "vec2_distance q ?c \<le> decimation_eps" if q: "q \<in> set (sampled n path)" for q
  proof -
    from q obtain seg i where seg: "seg \<in> set path" and i: "i \<le> nat n"
      and qi: "q = flip_y (seg_point seg (real i / real_of_int n))"
      by (auto simp: sampled_def less_Suc_eq_le simp del: upt_Suc)
    have "0 \<le> real i / real_of_int n" "real i / real_of_int n \<le> 1"
      using pos i by (simp_all add: divide_le_eq_1)
    then show ?thesis
      using small seg by (simp add: qi vec2_distance_flip_y)
  qed
  then have "decimate_from ?c cs = []"
    using cs by (intro decimate_from_near) simp
  then show ?thesis by (simp add: cs)
qed

lemma svg_to_dxf_paths:
  "svg2paths2 w svg_path = Inr paths \<Longrightarrow> paths \<noteq> [] \<Longrightarrow>
   svg_to_dxf n svg_path dxf_path w =
     (case fold_err (export_path n) paths (ezdxf_new ''R2010'', 0) of
        Inl e \<Rightarrow> (Raise e, emit (MsgParsing svg_path) w)
      | Inr (doc, path_count) \<Rightarrow>
          (if 0 < path_count then
             (case write_file dxf_path (DxfFile doc) (emit (MsgParsing svg_path) w) of
                Inl e \<Rightarrow> (Raise e, emit (MsgParsing svg_path) w)
              | Inr w' \<Rightarrow> (Ret True, emit (MsgSaved dxf_path path_count) w'))
           else (Ret False, emit MsgNoValid (emit (MsgParsing svg_path) w))))"
  by (simp add: svg_to_dxf_def Let_def)

lemmas world_eval [model_eval] =
  svg2paths2_def image_open_def path_exists_def write_file_def py_dirname_no_slash emit_def ezdxf_new_def
  add_lwpolyline_def spec_doc_def spec_polylines_def sampled_def

subsection \<open>Properties of the export\<close>

lemma svg_to_dxf_contract:
  assumes "0 < n" and "svg2paths2 w svg_path = Inr paths" and "paths \<noteq> []"
    and "[] \<notin> set paths" and "writable w dxf_path"
  shows "svg_to_dxf n svg_path dxf_path w =
    (if spec_polylines n paths = []
     then (Ret False, w\<lparr>stdout := stdout w @ [MsgParsing svg_path, MsgNoValid]\<rparr>)
     else (Ret True, w\<lparr>files := (files w)(dxf_path \<mapsto> DxfFile (spec_doc n paths)),
                       stdout := stdout w @ [MsgParsing svg_path,
                                             MsgSaved dxf_path (length (spec_polylines n paths))]\<rparr>))"
  using assms
  by (simp add: svg_to_dxf_paths fold_export_path ezdxf_new_def spec_doc_def write_file_writable emit_def)

lemma svg_to_dxf_write_fails:
  assumes "0 < n" and "svg2paths2 w svg_path = Inr paths" and "paths \<noteq> []"
    and "[] \<notin> set paths" and "spec_polylines n paths \<noteq> []"
    and "write_file dxf_path (DxfFile (spec_doc n paths)) (emit (MsgParsing svg_path) w) = Inl e"
  shows "svg_to_dxf n svg_path dxf_path w = (Raise e, emit (MsgParsing svg_path) w)"
  using assms(6) assms(1-5)
  by (simp add: svg_to_dxf_paths fold_export_path ezdxf_new_def spec_doc_def)

text \<open>
  C12. Refinement: on a parsed SVG whose paths all have segments, with a positive sample
  count and a writable target, \<open>svg_to_dxf\<close> returns \<open>True\<close> exactly when the contract
  yields a polyline, and then the target holds the contract's document, with one closed
  polyline per surviving path in path order; otherwise nothing is written.
\<close>

theorem svg_to_dxf_refines:
  assumes "0 < n" and "svg2paths2 w svg_path = Inr paths" and "paths \<noteq> []"
    and "[] \<notin> set paths" and "writable w dxf_path"
  shows "svg_to_dxf n svg_path dxf_path w =
    (if spec_polylines n paths = []
     then (Ret False, w\<lparr>stdout := stdout w @ [MsgParsing svg_path, MsgNoValid]\<rparr>)
     else (Ret True, w\<lparr>files := (files w)(dxf_path \<mapsto> DxfFile (spec_doc n paths)),
                       stdout := stdout w @ [MsgParsing svg_path,
                                             MsgSaved dxf_path (length (spec_polylines n paths))]\<rparr>))"
  using assms by (rule svg_to_dxf_contract)

text \<open>
  C13. A path without segments makes \<open>coords[0]\<close> raise \<open>IndexError\<close>: the whole export
  fails with the exception and writes no file, instead of discarding the path as the
  design notes require.
\<close>

theorem svg_to_dxf_empty_path_raises:
  assumes "0 < n" and "svg2paths2 w svg_path = Inr paths" and "[] \<in> set paths"
  shows "svg_to_dxf n svg_path dxf_path w = (Raise IndexError, emit (MsgParsing svg_path) w)"
proof -
  obtain xs ys where split: "paths = xs @ [] # ys" and xs: "[] \<notin> set xs"
    using split_list_first[OF assms(3)] by blast
  have "fold_err (export_path n) paths (ezdxf_new ''R2010'', 0) = Inl IndexError"
    using fold_export_path[OF assms(1) xs] by (simp add: split fold_err_append export_path_empty)
  moreover have "paths \<noteq> []" using assms(3) by auto
  ultimately show ?thesis using assms(2) by (simp add: svg_to_dxf_paths)
qed

lemma svg_to_dxf_Ret_True:
  assumes "svg_to_dxf n svg_path dxf_path w = (Ret True, w')"
  shows "\<exists>doc. files w' dxf_path = Some (DxfFile doc) \<and> modelspace doc \<noteq> [] \<and>
               list_all entity_wf (modelspace doc)"
proof -
  obtain paths where paths: "svg2paths2 w svg_path = Inr paths"
    using assms by (cases "svg2paths2 w svg_path") (simp_all add: svg_to_dxf_def Let_def)
  have ne: "paths \<noteq> []"
    using assms paths by (auto simp: svg_to_dxf_def Let_def)
  note run = assms[unfolded svg_to_dxf_paths[OF paths ne]]
  obtain doc k where loop: "fold_err (export_path n) paths (ezdxf_new ''R2010'', 0) = Inr (doc, k)"
    using run by (cases "fold_err (export_path n) paths (ezdxf_new ''R2010'', 0)") auto
  note run = run[unfolded loop]
  have k: "0 < k" using run by (auto split: if_splits)
  obtain w2 where wr: "write_file dxf_path (DxfFile doc) (emit (MsgParsing svg_path) w) = Inr w2"
    using run k by (cases "write_file dxf_path (DxfFile doc) (emit (MsgParsing svg_path) w)") auto
  have w': "w' = emit (MsgSaved dxf_path k) w2" using run k wr by simp
  let ?P = "\<lambda>st. list_all entity_wf (modelspace (fst st)) \<and> length (modelspace (fst st)) = snd st"
  have "?P (doc, k)"
  proof (rule fold_err_invariant[OF loop, where P = ?P])
    show "?P (ezdxf_new ''R2010'', 0)" by (simp add: ezdxf_new_def)
  next
    fix x c c' assume "?P c" and "export_path n x c = Inr c'"
    then show "?P c'" using export_path_wf by blast
  qed
  then have "list_all entity_wf (modelspace doc) \<and> length (modelspace doc) = k" by simp
  moreover have "files w' dxf_path = Some (DxfFile doc)"
    using wr w' by (simp add: write_file_Inr)
  ultimately show ?thesis using k by auto
qed

text \<open>
  C14. Whenever \<open>svg_to_dxf\<close> returns \<open>True\<close>, the target file holds a DXF document with
  at least one entity, and every entity is closed, has at least two vertices and keeps
  consecutive vertices more than \<open>0.1\<close> apart.
\<close>

theorem svg_to_dxf_true_wf:
  assumes "svg_to_dxf n svg_path dxf_path w = (Ret True, w')"
  shows "\<exists>doc. files w' dxf_path = Some (DxfFile doc) \<and> modelspace doc \<noteq> [] \<and>
               list_all entity_wf (modelspace doc)"
  using assms by (rule svg_to_dxf_Ret_True)

text \<open>
  C15. An SVG that cannot be read (missing, a directory, not parseable) makes
  \<open>svg_to_dxf\<close> report the error and return \<open>False\<close>; no file changes.
\<close>

theorem svg_to_dxf_parse_error:
  "svg2paths2 w svg_path = Inl e \<Longrightarrow>
   svg_to_dxf n svg_path dxf_path w =
     (Ret False, w\<lparr>stdout := stdout w @ [MsgParsing svg_path, MsgSvgError e]\<rparr>)"
  by (simp add: svg_to_dxf_def Let_def)

lemma svg_to_dxf_empty_svg:
  "svg2paths2 w svg_path = Inr [] \<Longrightarrow>
   svg_to_dxf n svg_path dxf_path w =
     (Ret False, w\<lparr>stdout := stdout w @ [MsgParsing svg_path, MsgNoPaths]\<rparr>)"
  by (simp add: svg_to_dxf_def Let_def)

text \<open>C16. An SVG without paths makes \<open>svg_to_dxf\<close> return \<open>False\<close>; no file changes.\<close>

theorem svg_to_dxf_no_paths:
  "svg2paths2 w svg_path = Inr [] \<Longrightarrow>
   svg_to_dxf n svg_path dxf_path w =
     (Ret False, w\<lparr>stdout := stdout w @ [MsgParsing svg_path, MsgNoPaths]\<rparr>)"
  by (rule svg_to_dxf_empty_svg)

text \<open>
  C17. \<open>svg_to_dxf\<close> changes the file system only when it returns \<open>True\<close>, and then
  only at the target path.
\<close>

theorem svg_to_dxf_writes_only_target:
  "files (snd (svg_to_dxf n svg_path dxf_path w)) =
     (if fst (svg_to_dxf n svg_path dxf_path w) = Ret True
      then (files w)(dxf_path := files (snd (svg_to_dxf n svg_path dxf_path w)) dxf_path)
      else files w)"
proof (cases "svg2paths2 w svg_path")
  case (Inl e)
  then show ?thesis by (simp add: svg_to_dxf_def Let_def)
next
  case (Inr paths)
  show ?thesis
  proof (cases "paths = []")
    case True
    with Inr show ?thesis by (simp add: svg_to_dxf_def Let_def)
  next
    case False
    note run = svg_to_dxf_paths[OF Inr False, of n dxf_path]
    show ?thesis
    proof (cases "fold_err (export_path n) paths (ezdxf_new ''R2010'', 0)")
      case (Inl e)
      with run show ?thesis by simp
    next
      case (Inr st)
      obtain doc k where st: "st = (doc, k)" by (cases st)
      note loop = Inr
      show ?thesis
      proof (cases "write_file dxf_path (DxfFile doc) (emit (MsgParsing svg_path) w)")
        case (Inl e)
        with run loop st show ?thesis by simp
      next
        case (Inr w2)
        with run loop st show ?thesis
          by (cases "0 < k") (auto simp: write_file_Inr fun_eq_iff)
      qed
    qed
  qed
qed

text \<open>
  C34. Shapes smaller than the decimation distance are dropped: when every segment of
  every path stays within \<open>0.1\<close> of the path's first point, each path decimates to one
  point, no polyline is added, and \<open>svg_to_dxf\<close> reports that no valid polyline was
  found and returns \<open>False\<close> without attempting the write (so even when the target is not
  writable).
\<close>

theorem svg_to_dxf_specks:
  assumes pos: "0 < n" and parsed: "svg2paths2 w svg_path = Inr paths"
    and ne: "paths \<noteq> []" and segs: "[] \<notin> set paths"
    and small: "\<forall>path \<in> set paths. \<forall>seg \<in> set path. \<forall>t. 0 \<le> t \<and> t \<le> 1 \<longrightarrow>
                  cmod (seg_point seg t - seg_point (hd path) 0) \<le> decimation_eps"
  shows "svg_to_dxf n svg_path dxf_path w =
           (Ret False, w\<lparr>stdout := stdout w @ [MsgParsing svg_path, MsgNoValid]\<rparr>)"
proof -
  have "greedy (sampled n path) = [flip_y (seg_point (hd path) 0)]" if "path \<in> set paths" for path
    using greedy_sampled_speck[OF pos] segs small that by (metis (no_types, lifting))
  then have "spec_polylines n paths = []"
    by (auto simp: spec_polylines_def filter_empty_conv)
  then show ?thesis
    using fold_export_path[OF pos segs] by (simp add: svg_to_dxf_paths[OF parsed ne] emit_def)
qed

subsection \<open>Witnesses\<close>

lemma svg_to_dxf_demo:
  "svg_to_dxf 1 ''t.svg'' ''t.dxf''
     \<lparr>files = Map.empty(''t.svg'' \<mapsto> SvgFile [[Line 0 1]]), stdout = []\<rparr> =
   (Ret True,
    \<lparr>files = Map.empty(''t.svg'' \<mapsto> SvgFile [[Line 0 1]],
       ''t.dxf'' \<mapsto> DxfFile \<lparr>dxfversion = ''R2010'',
          modelspace = [\<lparr>lw_points = [(0, 0), (1, 0)], lw_closed = True\<rparr>]\<rparr>),
     stdout = [MsgParsing ''t.svg'', MsgSaved ''t.dxf'' 1]\<rparr>)"
  by (simp add: svg_to_dxf_def export_path_def Let_def model_eval simplify_coords_Cons upt_rec)

theorem svg_to_dxf_refines_witness:
  "svg_to_dxf 1 ''t.svg'' ''t.dxf''
     \<lparr>files = Map.empty(''t.svg'' \<mapsto> SvgFile [[Line 0 1]]), stdout = []\<rparr> =
   (Ret True,
    \<lparr>files = Map.empty(''t.svg'' \<mapsto> SvgFile [[Line 0 1]],
       ''t.dxf'' \<mapsto> DxfFile (spec_doc 1 [[Line 0 1]])),
     stdout = [MsgParsing ''t.svg'', MsgSaved ''t.dxf'' (length (spec_polylines 1 [[Line 0 1]]))]\<rparr>)"
proof -
  let ?w = "\<lparr>files = Map.empty(''t.svg'' \<mapsto> SvgFile [[Line 0 1]]), stdout = []\<rparr>"
  have h: "svg2paths2 ?w ''t.svg'' = Inr [[Line 0 1]]" by (simp add: svg2paths2_def)
  have sp: "spec_polylines 1 [[Line 0 1]] \<noteq> []"
    by (simp add: model_eval simplify_coords_Cons upt_rec)
  show ?thesis
    using svg_to_dxf_refines[OF _ h, where dxf_path = "''t.dxf''"] sp by (simp add: writable_no_slash)
qed

theorem svg_to_dxf_empty_path_raises_witness:
  "svg_to_dxf 1 ''t.svg'' ''t.dxf''
     \<lparr>files = Map.empty(''t.svg'' \<mapsto> SvgFile [[Line 0 1], []]), stdout = []\<rparr> =
   (Raise IndexError,
    \<lparr>files = Map.empty(''t.svg'' \<mapsto> SvgFile [[Line 0 1], []]), stdout = [MsgParsing ''t.svg'']\<rparr>)"
proof -
  let ?w = "\<lparr>files = Map.empty(''t.svg'' \<mapsto> SvgFile [[Line 0 1], []]), stdout = []\<rparr>"
  have h: "svg2paths2 ?w ''t.svg'' = Inr [[Line 0 1], []]" by (simp add: svg2paths2_def)
  show ?thesis
    using svg_to_dxf_empty_path_raises[OF _ h, where dxf_path = "''t.dxf''"] by (simp add: emit_def)
qed

theorem svg_to_dxf_true_wf_witness:
  "\<exists>doc. Some (DxfFile \<lparr>dxfversion = ''R2010'',
          modelspace = [\<lparr>lw_points = [(0, 0), (1, 0)], lw_closed = True\<rparr>]\<rparr>) = Some (DxfFile doc) \<and>
     modelspace doc \<noteq> [] \<and> list_all entity_wf (modelspace doc)"
  using svg_to_dxf_true_wf [OF svg_to_dxf_demo] by simp

theorem svg_to_dxf_parse_error_witness:
  "svg_to_dxf 1 ''t.svg'' ''t.dxf'' \<lparr>files = Map.empty, stdout = []\<rparr> =
   (Ret False, \<lparr>files = Map.empty, stdout = [MsgParsing ''t.svg'', MsgSvgError FileNotFoundError]\<rparr>)"
proof -
  have h: "svg2paths2 \<lparr>files = Map.empty, stdout = []\<rparr> ''t.svg'' = Inl FileNotFoundError"
    by (simp add: svg2paths2_def)
  show ?thesis using svg_to_dxf_parse_error [OF h] by simp
qed

theorem svg_to_dxf_no_paths_witness:
  "svg_to_dxf 1 ''t.svg'' ''t.dxf'' \<lparr>files = Map.empty(''t.svg'' \<mapsto> SvgFile []), stdout = []\<rparr> =
   (Ret False, \<lparr>files = Map.empty(''t.svg'' \<mapsto> SvgFile []), stdout = [MsgParsing ''t.svg'', MsgNoPaths]\<rparr>)"
proof -
  have h: "svg2paths2 \<lparr>files = Map.empty(''t.svg'' \<mapsto> SvgFile []), stdout = []\<rparr> ''t.svg'' = Inr []"
    by (simp add: svg2paths2_def)
  show ?thesis using svg_to_dxf_no_paths [OF h] by simp
qed

theorem svg_to_dxf_specks_witness:
  "svg_to_dxf 40 ''t.svg'' ''t.dxf''
     \<lparr>files = Map.empty(''t.svg'' \<mapsto> SvgFile [[Line 0 (1 / 20)]], ''t.dxf'' \<mapsto> Directory), stdout = []\<rparr> =
   (Ret False,
    \<lparr>files = Map.empty(''t.svg'' \<mapsto> SvgFile [[Line 0 (1 / 20)]], ''t.dxf'' \<mapsto> Directory),
     stdout = [MsgParsing ''t.svg'', MsgNoValid]\<rparr>)"
proof -
  let ?w = "\<lparr>files = Map.empty(''t.svg'' \<mapsto> SvgFile [[Line 0 (1 / 20)]], ''t.dxf'' \<mapsto> Directory), stdout = []\<rparr>"
  have h: "svg2paths2 ?w ''t.svg'' = Inr [[Line 0 (1 / 20)]]" by (simp add: svg2paths2_def)
  have small: "\<forall>path \<in> set [[Line 0 (1 / 20)]]. \<forall>seg \<in> set path. \<forall>t. 0 \<le> t \<and> t \<le> 1 \<longrightarrow>
                  cmod (seg_point seg t - seg_point (hd path) 0) \<le> decimation_eps"
    by (simp add: decimation_eps_def norm_divide)
  show ?thesis using svg_to_dxf_specks[OF _ h _ _ small, where dxf_path = "''t.dxf''"] by simp
qed

end
