(* ===== verification/Pipeline.thy ===== *)
theory Pipeline
  imports Binarizer Tracer DxfExport
begin

text \<open>
  \<open>main\<close> (\<open>src/linux_cadtrace.py\<close>, lines 76--97): check that the input exists,
  binarise it, trace it, and export the trace to DXF with 40 samples per segment,
  printing a progress line before each stage. It returns the DXF path on success and
  \<open>None\<close> (Python's implicit return) otherwise; exceptions of the stages propagate.
\<close>

text \<open>Line 91: \<open>svg_path.replace(".svg", ".dxf")\<close>.\<close>

definition dxf_path_of :: "string \<Rightarrow> string" where
  "dxf_path_of svg_path = py_replace svg_path ''.svg'' ''.dxf''"

definition main :: "process \<Rightarrow> string \<Rightarrow> world \<Rightarrow> string option outcome \<times> world" where
  "main run image_path w0 =
     (if \<not> path_exists w0 image_path then (Ret None, emit MsgImageNotFound w0)
      else
        (case convert_to_pbm image_path (emit (MsgPreprocessing image_path) w0) of
           (Raise e, w1) \<Rightarrow> (Raise e, w1)
         | (Ret pbm_path, w1) \<Rightarrow>
             (case trace_with_potrace run pbm_path (emit MsgTracing w1) of
                (Raise e, w2) \<Rightarrow> (Raise e, w2)
              | (Ret svg_opt, w2) \<Rightarrow>
                  (if svg_opt = None \<or> svg_opt = Some [] then (Ret None, emit MsgAborting w2)
                   else
                     (let svg_path = the svg_opt; dxf_path = dxf_path_of svg_path in
                      case svg_to_dxf 40 svg_path dxf_path (emit MsgExporting w2) of
                        (Raise e, w3) \<Rightarrow> (Raise e, w3)
                      | (Ret success, w3) \<Rightarrow>
                          (if success then (Ret (Some dxf_path), emit MsgDone w3)
                           else (Ret None, emit MsgExportFailed w3)))))))"

text \<open>
  The contract the tracer is assumed to keep in the end-to-end properties: on the
  arguments \<open>main\<close> passes, it exits with status \<open>rc\<close>, writes an SVG file with the
  given paths at the output path, and touches nothing else.
\<close>

definition traces_to :: "process \<Rightarrow> string \<Rightarrow> int \<Rightarrow> string option \<Rightarrow> segment list list \<Rightarrow> bool" where
  "traces_to run pbm_path rc err paths \<longleftrightarrow>
     (\<forall>w. run [potrace_path, pbm_path, ''-s'', ''-o'', svg_path_of pbm_path] w =
            Inr (rc, err, w\<lparr>files := (files w)(svg_path_of pbm_path \<mapsto> SvgFile paths)\<rparr>))"

lemma dxf_path_of_append_svg:
  "dxf_path_of (r @ ''.svg'') = py_replace r ''.svg'' ''.dxf'' @ ''.dxf''"
  by (simp add: dxf_path_of_def py_replace_append_unbordered svg_unbordered)

lemma svg_path_of_nonempty: "svg_path_of (r @ ''.pbm'') \<noteq> []"
  by (simp add: svg_path_of_append_pbm)

lemma main_exists:
  assumes "files w p = Some (ImageFile img)" and "writable w (pbm_path_of p)"
  shows "main run p w =
    (case trace_with_potrace run (pbm_path_of p)
            (emit MsgTracing (emit (MsgPreprocessing p) w\<lparr>files := (files w)(pbm_path_of p \<mapsto>
               ImageFile (point_1 threshold (convert_L img)))\<rparr>)) of
       (Raise e, w2) \<Rightarrow> (Raise e, w2)
     | (Ret svg_opt, w2) \<Rightarrow>
         (if svg_opt = None \<or> svg_opt = Some [] then (Ret None, emit MsgAborting w2)
          else
            (let svg_path = the svg_opt; dxf_path = dxf_path_of svg_path in
             case svg_to_dxf 40 svg_path dxf_path (emit MsgExporting w2) of
               (Raise e, w3) \<Rightarrow> (Raise e, w3)
             | (Ret success, w3) \<Rightarrow>
                 (if success then (Ret (Some dxf_path), emit MsgDone w3)
                  else (Ret None, emit MsgExportFailed w3)))))"
proof -
  have "image_open (emit (MsgPreprocessing p) w) p = Inr img"
    using assms(1) by (simp add: image_open_def)
  moreover have "writable (emit (MsgPreprocessing p) w) (pbm_path_of p)"
    using assms(2) by simp
  ultimately show ?thesis
    using assms(1) by (simp add: main_def path_exists_def convert_to_pbm_Ret emit_def)
qed

lemma main_traced:
  assumes "files w p = Some (ImageFile img)" and "writable w (pbm_path_of p)"
    and "traces_to run (pbm_path_of p) 0 err paths"
  shows "main run p w =
    (case svg_to_dxf 40 (svg_path_of (pbm_path_of p)) (dxf_path_of (svg_path_of (pbm_path_of p)))
            (w\<lparr>files := (files w)(pbm_path_of p \<mapsto> ImageFile (point_1 threshold (convert_L img)),
                                  svg_path_of (pbm_path_of p) \<mapsto> SvgFile paths),
               stdout := stdout w @ [MsgPreprocessing p, MsgTracing, MsgExporting]\<rparr>) of
       (Raise e, w3) \<Rightarrow> (Raise e, w3)
     | (Ret success, w3) \<Rightarrow>
         (if success then (Ret (Some (dxf_path_of (svg_path_of (pbm_path_of p)))), emit MsgDone w3)
          else (Ret None, emit MsgExportFailed w3)))"
proof -
  have ne: "svg_path_of (pbm_path_of p) \<noteq> []"
    by (simp add: pbm_path_of_def svg_path_of_nonempty)
  have run: "run [potrace_path, pbm_path_of p, ''-s'', ''-o'', svg_path_of (pbm_path_of p)] w' =
      Inr (0, err, w'\<lparr>files := (files w')(svg_path_of (pbm_path_of p) \<mapsto> SvgFile paths)\<rparr>)" for w'
    using assms(3) by (simp add: traces_to_def)
  show ?thesis
    using ne by (simp add: main_exists[OF assms(1,2)] trace_with_potrace_def run Let_def emit_def)
qed

lemma traced_world_writable:
  assumes "writable w d" and "writable w a" and "writable w b"
  shows "writable (w\<lparr>files := (files w)(a \<mapsto> ImageFile i, b \<mapsto> SvgFile ps), stdout := out\<rparr>) d"
proof -
  have a: "files w a \<noteq> Some Directory" using assms(2) by (simp add: writable_def)
  have b: "files (w\<lparr>files := (files w)(a \<mapsto> ImageFile i)\<rparr>) b \<noteq> Some Directory"
    using assms(3) by (simp add: writable_def)
  have "writable (w\<lparr>files := (files w)(a \<mapsto> ImageFile i)\<rparr>) d"
    using writable_upd[OF assms(1) a, where f = "ImageFile i"] by simp
  then show ?thesis using writable_upd[OF _ b, where f = "SvgFile ps"] by simp
qed

lemma convert_to_pbm_Ret_path:
  "convert_to_pbm p w = (Ret q, w') \<Longrightarrow> q = pbm_path_of p"
  by (auto simp: convert_to_pbm_def Let_def split: sum.splits)

lemma trace_with_potrace_Ret_path:
  "trace_with_potrace run q w = (Ret (Some s), w') \<Longrightarrow> s = svg_path_of q"
  by (auto simp: trace_with_potrace_def Let_def split: sum.splits if_splits option.splits)

lemma demo_paths:
  "pbm_path_of ''a.png'' = ''a.pbm''" "svg_path_of ''a.pbm'' = ''a.svg''"
  "dxf_path_of ''a.svg'' = ''a.dxf''"
proof -
  show "pbm_path_of ''a.png'' = ''a.pbm''" using pbm_path_of_ext[of "''a''" "''png''"] by simp
  show "svg_path_of ''a.pbm'' = ''a.svg''" using svg_path_of_append_pbm[of "''a''"]
    by (simp add: py_replace.simps prefix_def)
  show "dxf_path_of ''a.svg'' = ''a.dxf''" using dxf_path_of_append_svg[of "''a''"]
    by (simp add: py_replace.simps prefix_def)
qed

lemma demo_traces_to:
  "traces_to (\<lambda>args w. Inr (rc, err, w\<lparr>files := (files w)(''a.svg'' \<mapsto> SvgFile ps)\<rparr>)) ''a.pbm'' rc err ps"
  by (simp add: traces_to_def demo_paths)

lemma derived_dxf_dirname:
  "py_dirname (dxf_path_of (svg_path_of (pbm_path_of p))) \<noteq> pbm_path_of p \<and>
   py_dirname (dxf_path_of (svg_path_of (pbm_path_of p))) \<noteq> svg_path_of (pbm_path_of p)"
proof -
  let ?q = "pbm_path_of p"
  let ?d = "dxf_path_of (svg_path_of ?q)"
  have ls: "length (svg_path_of ?q) = length ?q"
    by (simp add: svg_path_of_def py_replace_length)
  have ld: "length ?d = length (svg_path_of ?q)"
    by (simp add: dxf_path_of_def py_replace_length)
  obtain r where "?d = r @ ''.dxf''"
    by (simp add: pbm_path_of_def svg_path_of_append_pbm dxf_path_of_append_svg)
  then have "length (py_dirname ?d) < length ?d"
    by (intro py_dirname_shorter) simp_all
  then show ?thesis using ls ld by auto
qed

subsection \<open>Properties of the pipeline\<close>

text \<open>
  C25. A missing input makes \<open>main\<close> print "Image file not found." and return \<open>None\<close>
  without touching the file system.
\<close>

theorem main_missing_input:
  "files w p = None \<Longrightarrow> main run p w = (Ret None, w\<lparr>stdout := stdout w @ [MsgImageNotFound]\<rparr>)"
  by (simp add: main_def path_exists_def emit_def)

theorem main_missing_input_witness:
  "main (\<lambda>args w. Inl FileNotFoundError) ''a.png'' \<lparr>files = Map.empty, stdout = []\<rparr> =
     (Ret None, \<lparr>files = Map.empty, stdout = [MsgImageNotFound]\<rparr>)"
  using main_missing_input[where w = "\<lparr>files = Map.empty, stdout = []\<rparr>" and p = "''a.png''"
      and run = "\<lambda>args w. Inl FileNotFoundError"] by simp

text \<open>
  C26. End to end: when the input is an image, the tracer succeeds and writes paths that
  all have segments and that the contract turns into at least one polyline, \<open>main\<close>
  writes the PBM, SVG and DXF files at the derived paths, returns the DXF path, and prints
  the progress lines in stage order.
\<close>

theorem main_end_to_end:
  assumes "files w p = Some (ImageFile img)" and "writable w (pbm_path_of p)"
    and "traces_to run (pbm_path_of p) 0 err paths"
    and "paths \<noteq> []" and "[] \<notin> set paths" and "spec_polylines 40 paths \<noteq> []"
    and "writable w (svg_path_of (pbm_path_of p))"
    and "writable w (dxf_path_of (svg_path_of (pbm_path_of p)))"
  shows "main run p w =
    (Ret (Some (dxf_path_of (svg_path_of (pbm_path_of p)))),
     w\<lparr>files := (files w)(pbm_path_of p \<mapsto> ImageFile (point_1 threshold (convert_L img)),
                          svg_path_of (pbm_path_of p) \<mapsto> SvgFile paths,
                          dxf_path_of (svg_path_of (pbm_path_of p)) \<mapsto> DxfFile (spec_doc 40 paths)),
       stdout := stdout w @ [MsgPreprocessing p, MsgTracing, MsgExporting,
                             MsgParsing (svg_path_of (pbm_path_of p)),
                             MsgSaved (dxf_path_of (svg_path_of (pbm_path_of p))) (length (spec_polylines 40 paths)),
                             MsgDone]\<rparr>)"
proof -
  let ?W = "w\<lparr>files := (files w)(pbm_path_of p \<mapsto> ImageFile (point_1 threshold (convert_L img)),
                                  svg_path_of (pbm_path_of p) \<mapsto> SvgFile paths),
               stdout := stdout w @ [MsgPreprocessing p, MsgTracing, MsgExporting]\<rparr>"
  have "svg2paths2 ?W (svg_path_of (pbm_path_of p)) = Inr paths" by (simp add: svg2paths2_def)
  moreover have "writable ?W (dxf_path_of (svg_path_of (pbm_path_of p)))"
    using traced_world_writable[OF assms(8) assms(2) assms(7)] .
  ultimately show ?thesis
    using assms by (simp add: main_traced svg_to_dxf_contract emit_def)
qed

text \<open>
  C27. The scenario of the design notes: when the tracer finds no path (as on an all-white
  image), \<open>main\<close> reports the failed export, returns \<open>None\<close> and writes no DXF file.
\<close>

theorem main_no_paths:
  assumes "files w p = Some (ImageFile img)" and "writable w (pbm_path_of p)"
    and "traces_to run (pbm_path_of p) 0 err []"
  shows "main run p w =
    (Ret None,
     w\<lparr>files := (files w)(pbm_path_of p \<mapsto> ImageFile (point_1 threshold (convert_L img)),
                          svg_path_of (pbm_path_of p) \<mapsto> SvgFile []),
       stdout := stdout w @ [MsgPreprocessing p, MsgTracing, MsgExporting,
                             MsgParsing (svg_path_of (pbm_path_of p)), MsgNoPaths, MsgExportFailed]\<rparr>)"
proof -
  let ?W = "w\<lparr>files := (files w)(pbm_path_of p \<mapsto> ImageFile (point_1 threshold (convert_L img)),
                                  svg_path_of (pbm_path_of p) \<mapsto> SvgFile []),
               stdout := stdout w @ [MsgPreprocessing p, MsgTracing, MsgExporting]\<rparr>"
  have "svg2paths2 ?W (svg_path_of (pbm_path_of p)) = Inr []" by (simp add: svg2paths2_def)
  then show ?thesis
    using assms by (simp add: main_traced svg_to_dxf_empty_svg emit_def)
qed

text \<open>
  C28. When potrace exits with a non-zero status and readable diagnostics, \<open>main\<close>
  prints them, aborts with \<open>None\<close>, and never reaches the export.
\<close>

theorem main_potrace_failure:
  assumes "files w p = Some (ImageFile img)" and "writable w (pbm_path_of p)"
    and "traces_to run (pbm_path_of p) rc (Some msg) paths" and "rc \<noteq> 0"
  shows "main run p w =
    (Ret None,
     w\<lparr>files := (files w)(pbm_path_of p \<mapsto> ImageFile (point_1 threshold (convert_L img)),
                          svg_path_of (pbm_path_of p) \<mapsto> SvgFile paths),
       stdout := stdout w @ [MsgPreprocessing p, MsgTracing, MsgPotraceFailed msg, MsgAborting]\<rparr>)"
proof -
  have run: "run [potrace_path, pbm_path_of p, ''-s'', ''-o'', svg_path_of (pbm_path_of p)] w' =
      Inr (rc, Some msg, w'\<lparr>files := (files w')(svg_path_of (pbm_path_of p) \<mapsto> SvgFile paths)\<rparr>)" for w'
    using assms(3) by (simp add: traces_to_def)
  show ?thesis
    using assms(4) by (simp add: main_exists[OF assms(1,2)] trace_with_potrace_def run Let_def emit_def)
qed

text \<open>
  C29. Whatever the tracer does, a path returned by \<open>main\<close> is the path derived from the
  input, and it holds a DXF document with at least one well-formed polyline.
\<close>

theorem main_returns_dxf:
  assumes "main run p w = (Ret (Some d), w')"
  shows "d = dxf_path_of (svg_path_of (pbm_path_of p)) \<and>
         (\<exists>doc. files w' d = Some (DxfFile doc) \<and> modelspace doc \<noteq> [] \<and>
                list_all entity_wf (modelspace doc))"
proof -
  note m = assms[unfolded main_def]
  from m have ex: "path_exists w p" by (auto split: if_splits)
  obtain r1 w1 where c: "convert_to_pbm p (emit (MsgPreprocessing p) w) = (r1, w1)" by fastforce
  from m ex c obtain pbm where r1: "r1 = Ret pbm" by (cases r1) auto
  obtain r2 w2 where t: "trace_with_potrace run pbm (emit MsgTracing w1) = (r2, w2)" by fastforce
  from m ex c r1 t obtain s where r2: "r2 = Ret (Some s)" and s: "s \<noteq> []"
    by (cases r2) (auto split: if_splits)
  obtain r3 w3 where x: "svg_to_dxf 40 s (dxf_path_of s) (emit MsgExporting w2) = (r3, w3)" by fastforce
  from m ex c r1 t r2 s x have r3: "r3 = Ret True" and d: "d = dxf_path_of s" and w': "w' = emit MsgDone w3"
    by (cases r3; auto simp: Let_def split: if_splits)+
  have "pbm = pbm_path_of p" using c r1 by (simp add: convert_to_pbm_Ret_path)
  moreover have "s = svg_path_of pbm" using t r2 by (simp add: trace_with_potrace_Ret_path)
  moreover have "\<exists>doc. files w3 (dxf_path_of s) = Some (DxfFile doc) \<and> modelspace doc \<noteq> [] \<and>
                   list_all entity_wf (modelspace doc)"
    using x r3 by (simp add: svg_to_dxf_Ret_True)
  ultimately show ?thesis using d w' by simp
qed

text \<open>
  C30. For an input \<open>r.e\<close> whose stem \<open>r\<close> contains neither \<open>.pbm\<close> nor \<open>.svg\<close>, the
  DXF is written to \<open>r.dxf\<close>: the three file names differ from the input only in the
  extension, as the design notes state.
\<close>

theorem derived_dxf_path:
  assumes "r \<noteq> []" "last r \<noteq> CHR ''.''" "last r \<noteq> CHR ''/''"
    and "CHR ''.'' \<notin> set e" "CHR ''/'' \<notin> set e"
    and "\<not> sublist ''.pbm'' r" "\<not> sublist ''.svg'' r"
  shows "dxf_path_of (svg_path_of (pbm_path_of (r @ CHR ''.'' # e))) = r @ ''.dxf''"
  using assms
  by (simp add: pbm_path_of_ext svg_path_of_append_pbm dxf_path_of_append_svg py_replace_no_occurrence)

theorem derived_dxf_path_witness:
  "dxf_path_of (svg_path_of (pbm_path_of ''photo.png'')) = ''photo.dxf''"
proof -
  have "\<not> sublist ''.pbm'' ''photo''" "\<not> sublist ''.svg'' ''photo''"
    by (simp_all add: sublist_Cons_right prefix_def)
  then show ?thesis using derived_dxf_path[of "''photo''" "''png''"] by simp
qed

text \<open>
  C32. The square scenario of the design notes, for any polygon: when the tracer writes a
  single path of \<open>k\<close> straight sides each longer than \<open>0.1 * 40\<close>, \<open>main\<close> succeeds
  and the DXF file holds exactly one polyline, of \<open>1 + 40 k\<close> vertices (161 for a square).
\<close>

theorem main_polygon:
  assumes h1: "files w p = Some (ImageFile img)" and h2: "writable w (pbm_path_of p)"
    and hs: "writable w (svg_path_of (pbm_path_of p))"
    and h3: "writable w (dxf_path_of (svg_path_of (pbm_path_of p)))"
    and t: "traces_to run (pbm_path_of p) 0 err [lines_of (q # qs)]"
    and qs: "qs \<noteq> []"
    and sides: "successively (\<lambda>a b. decimation_eps * 40 < cmod (b - a)) (q # qs)"
  shows "\<exists>w' doc. main run p w = (Ret (Some (dxf_path_of (svg_path_of (pbm_path_of p)))), w') \<and>
           files w' (dxf_path_of (svg_path_of (pbm_path_of p))) = Some (DxfFile doc) \<and>
           map (\<lambda>e. length (lw_points e)) (modelspace doc) = [1 + length qs * 40]"
proof -
  let ?P = "lines_of (q # qs)"
  let ?W = "w\<lparr>files := (files w)(pbm_path_of p \<mapsto> ImageFile (point_1 threshold (convert_L img)),
                                  svg_path_of (pbm_path_of p) \<mapsto> SvgFile [?P]),
               stdout := stdout w @ [MsgPreprocessing p, MsgTracing, MsgExporting]\<rparr>"
  have len: "length (greedy (sampled 40 ?P)) = 1 + length qs * 40"
    using greedy_sampled_polygon[of 40 qs q] qs sides by simp
  have P: "?P \<noteq> []" using qs by (cases qs) simp_all
  have sp: "spec_polylines 40 [?P] = [greedy (sampled 40 ?P)]"
    using len qs by (simp add: spec_polylines_def Suc_le_eq)
  have "svg2paths2 ?W (svg_path_of (pbm_path_of p)) = Inr [?P]" by (simp add: svg2paths2_def)
  moreover have "writable ?W (dxf_path_of (svg_path_of (pbm_path_of p)))"
    using traced_world_writable[OF h3 h2 hs] .
  ultimately show ?thesis
    using P sp len by (simp add: main_traced[OF h1 h2 t] svg_to_dxf_contract spec_doc_def emit_def)
qed

text \<open>
  C35. The rewriting of line 91 can send the drawing into a directory that does not
  exist: when the tracer succeeds and the export finds a polyline, but the directory of
  the derived DXF path is missing, \<open>doc.saveas\<close> raises \<open>FileNotFoundError\<close>, nothing
  catches it, and \<open>main\<close> ends with the exception after writing the PBM and SVG files.
  For the input \<open>x.svg/a.png\<close> the drawing goes to \<open>x.dxf/a.dxf\<close>.
\<close>

theorem main_dxf_directory_missing:
  assumes h1: "files w p = Some (ImageFile img)" and h2: "writable w (pbm_path_of p)"
    and t: "traces_to run (pbm_path_of p) 0 err paths"
    and "paths \<noteq> []" and "[] \<notin> set paths" and "spec_polylines 40 paths \<noteq> []"
    and "py_dirname (dxf_path_of (svg_path_of (pbm_path_of p))) \<noteq> []"
    and "files w (py_dirname (dxf_path_of (svg_path_of (pbm_path_of p)))) = None"
  shows "main run p w =
    (Raise FileNotFoundError,
     w\<lparr>files := (files w)(pbm_path_of p \<mapsto> ImageFile (point_1 threshold (convert_L img)),
                          svg_path_of (pbm_path_of p) \<mapsto> SvgFile paths),
       stdout := stdout w @ [MsgPreprocessing p, MsgTracing, MsgExporting,
                             MsgParsing (svg_path_of (pbm_path_of p))]\<rparr>)"
proof -
  let ?s = "svg_path_of (pbm_path_of p)"
  let ?W = "w\<lparr>files := (files w)(pbm_path_of p \<mapsto> ImageFile (point_1 threshold (convert_L img)),
                                  ?s \<mapsto> SvgFile paths),
               stdout := stdout w @ [MsgPreprocessing p, MsgTracing, MsgExporting]\<rparr>"
  have parsed: "svg2paths2 ?W ?s = Inr paths" by (simp add: svg2paths2_def)
  have "files ?W (py_dirname (dxf_path_of ?s)) = None"
    using assms(8) derived_dxf_dirname[of p] by simp
  then have "write_file (dxf_path_of ?s) (DxfFile (spec_doc 40 paths)) (emit (MsgParsing ?s) ?W) =
             Inl FileNotFoundError"
    using assms(7) by (simp add: write_file_def Let_def)
  then show ?thesis
    using svg_to_dxf_write_fails[OF _ parsed assms(4-6)]
    by (simp add: main_traced[OF h1 h2 t] emit_def)
qed

subsection \<open>Witnesses\<close>

theorem main_end_to_end_witness:
  "main (\<lambda>args w. Inr (0, Some [], w\<lparr>files := (files w)(''a.svg'' \<mapsto> SvgFile [[Line 0 1]])\<rparr>))
     ''a.png'' \<lparr>files = Map.empty(''a.png'' \<mapsto> ImageFile (ImgL [[0]])), stdout = []\<rparr> =
   (Ret (Some ''a.dxf''),
    \<lparr>files = Map.empty(''a.png'' \<mapsto> ImageFile (ImgL [[0]]),
        ''a.pbm'' \<mapsto> ImageFile (point_1 threshold (convert_L (ImgL [[0]]))),
        ''a.svg'' \<mapsto> SvgFile [[Line 0 1]], ''a.dxf'' \<mapsto> DxfFile (spec_doc 40 [[Line 0 1]])),
     stdout = [MsgPreprocessing ''a.png'', MsgTracing, MsgExporting, MsgParsing ''a.svg'',
               MsgSaved ''a.dxf'' (length (spec_polylines 40 [[Line 0 1]])), MsgDone]\<rparr>)"
proof -
  have sp: "spec_polylines 40 [[Line 0 1]] \<noteq> []"
    by (simp add: spec_polylines_def sampled_def upt_rec flip_y_def decimation_eps_lt_iff)
  let ?run = "\<lambda>args w. Inr (0 :: int, Some [], w\<lparr>files := (files w)(''a.svg'' \<mapsto> SvgFile [[Line 0 1]])\<rparr>)"
  let ?w = "\<lparr>files = Map.empty(''a.png'' \<mapsto> ImageFile (ImgL [[0]])), stdout = []\<rparr>"
  have h1: "files ?w ''a.png'' = Some (ImageFile (ImgL [[0]]))" by simp
  have h2: "writable ?w (pbm_path_of ''a.png'')"
    by (simp add: demo_paths writable_no_slash)
  have t: "traces_to ?run (pbm_path_of ''a.png'') 0 (Some []) [[Line 0 1]]"
    using demo_traces_to by (simp add: demo_paths)
  have hs: "writable ?w (svg_path_of (pbm_path_of ''a.png''))"
    by (simp add: demo_paths writable_no_slash)
  have h7: "writable ?w (dxf_path_of (svg_path_of (pbm_path_of ''a.png'')))"
    by (simp add: demo_paths writable_no_slash)
  show ?thesis using main_end_to_end[OF h1 h2 t _ _ sp hs h7] by (simp add: demo_paths)
qed

theorem main_no_paths_witness:
  "main (\<lambda>args w. Inr (0, Some [], w\<lparr>files := (files w)(''a.svg'' \<mapsto> SvgFile [])\<rparr>))
     ''a.png'' \<lparr>files = Map.empty(''a.png'' \<mapsto> ImageFile (ImgL [[255]])), stdout = []\<rparr> =
   (Ret None,
    \<lparr>files = Map.empty(''a.png'' \<mapsto> ImageFile (ImgL [[255]]),
        ''a.pbm'' \<mapsto> ImageFile (point_1 threshold (convert_L (ImgL [[255]]))), ''a.svg'' \<mapsto> SvgFile []),
     stdout = [MsgPreprocessing ''a.png'', MsgTracing, MsgExporting, MsgParsing ''a.svg'',
               MsgNoPaths, MsgExportFailed]\<rparr>)"
proof -
  let ?run = "\<lambda>args w. Inr (0 :: int, Some [], w\<lparr>files := (files w)(''a.svg'' \<mapsto> SvgFile [])\<rparr>)"
  let ?w = "\<lparr>files = Map.empty(''a.png'' \<mapsto> ImageFile (ImgL [[255]])), stdout = []\<rparr>"
  have h1: "files ?w ''a.png'' = Some (ImageFile (ImgL [[255]]))" by simp
  have h2: "writable ?w (pbm_path_of ''a.png'')"
    by (simp add: demo_paths writable_no_slash)
  have t: "traces_to ?run (pbm_path_of ''a.png'') 0 (Some []) []"
    using demo_traces_to by (simp add: demo_paths)
  show ?thesis using main_no_paths[OF h1 h2 t] by (simp add: demo_paths)
qed

theorem main_potrace_failure_witness:
  "main (\<lambda>args w. Inr (2, Some ''err'', w\<lparr>files := (files w)(''a.svg'' \<mapsto> SvgFile [])\<rparr>))
     ''a.png'' \<lparr>files = Map.empty(''a.png'' \<mapsto> ImageFile (ImgL [[0]])), stdout = []\<rparr> =
   (Ret None,
    \<lparr>files = Map.empty(''a.png'' \<mapsto> ImageFile (ImgL [[0]]),
        ''a.pbm'' \<mapsto> ImageFile (point_1 threshold (convert_L (ImgL [[0]]))), ''a.svg'' \<mapsto> SvgFile []),
     stdout = [MsgPreprocessing ''a.png'', MsgTracing, MsgPotraceFailed ''err'', MsgAborting]\<rparr>)"
proof -
  let ?run = "\<lambda>args w. Inr (2 :: int, Some ''err'', w\<lparr>files := (files w)(''a.svg'' \<mapsto> SvgFile [])\<rparr>)"
  let ?w = "\<lparr>files = Map.empty(''a.png'' \<mapsto> ImageFile (ImgL [[0]])), stdout = []\<rparr>"
  have h1: "files ?w ''a.png'' = Some (ImageFile (ImgL [[0]]))" by simp
  have h2: "writable ?w (pbm_path_of ''a.png'')"
    by (simp add: demo_paths writable_no_slash)
  have t: "traces_to ?run (pbm_path_of ''a.png'') 2 (Some ''err'') []"
    using demo_traces_to by (simp add: demo_paths)
  have rc: "(2 :: int) \<noteq> 0" by simp
  show ?thesis using main_potrace_failure[OF h1 h2 t rc] by (simp add: demo_paths)
qed

theorem main_returns_dxf_witness:
  "''a.dxf'' = dxf_path_of (svg_path_of (pbm_path_of ''a.png'')) \<and>
   (\<exists>doc. Some (DxfFile (spec_doc 40 [[Line 0 1]])) = Some (DxfFile doc) \<and> modelspace doc \<noteq> [] \<and>
          list_all entity_wf (modelspace doc))"
proof -
  have sp: "spec_polylines 40 [[Line 0 1]] \<noteq> []"
    by (simp add: spec_polylines_def sampled_def upt_rec flip_y_def decimation_eps_lt_iff)
  let ?run = "\<lambda>args w. Inr (0 :: int, Some [], w\<lparr>files := (files w)(''a.svg'' \<mapsto> SvgFile [[Line 0 1]])\<rparr>)"
  let ?w = "\<lparr>files = Map.empty(''a.png'' \<mapsto> ImageFile (ImgL [[0]])), stdout = []\<rparr>"
  have h1: "files ?w ''a.png'' = Some (ImageFile (ImgL [[0]]))" by simp
  have h2: "writable ?w (pbm_path_of ''a.png'')"
    by (simp add: demo_paths writable_no_slash)
  have t: "traces_to ?run (pbm_path_of ''a.png'') 0 (Some []) [[Line 0 1]]"
    using demo_traces_to by (simp add: demo_paths)
  have hs: "writable ?w (svg_path_of (pbm_path_of ''a.png''))"
    by (simp add: demo_paths writable_no_slash)
  have h7: "writable ?w (dxf_path_of (svg_path_of (pbm_path_of ''a.png'')))"
    by (simp add: demo_paths writable_no_slash)
  have run: "main (\<lambda>args w. Inr (0, Some [], w\<lparr>files := (files w)(''a.svg'' \<mapsto> SvgFile [[Line 0 1]])\<rparr>))
     ''a.png'' \<lparr>files = Map.empty(''a.png'' \<mapsto> ImageFile (ImgL [[0]])), stdout = []\<rparr> =
   (Ret (Some ''a.dxf''),
    \<lparr>files = Map.empty(''a.png'' \<mapsto> ImageFile (ImgL [[0]]),
        ''a.pbm'' \<mapsto> ImageFile (point_1 threshold (convert_L (ImgL [[0]]))),
        ''a.svg'' \<mapsto> SvgFile [[Line 0 1]], ''a.dxf'' \<mapsto> DxfFile (spec_doc 40 [[Line 0 1]])),
     stdout = [MsgPreprocessing ''a.png'', MsgTracing, MsgExporting, MsgParsing ''a.svg'',
               MsgSaved ''a.dxf'' (length (spec_polylines 40 [[Line 0 1]])), MsgDone]\<rparr>)"
    using main_traced[OF h1 h2 t] sp
    by (simp add: demo_paths svg_to_dxf_contract svg2paths2_def emit_def writable_no_slash)
  show ?thesis using main_returns_dxf[OF run] by simp
qed

theorem main_polygon_witness:
  "\<exists>w' doc.
     main (\<lambda>args w. Inr (0, Some [], w\<lparr>files := (files w)(''a.svg'' \<mapsto>
              SvgFile [lines_of [0, 10, 10 + 10 * \<i>, 10 * \<i>, 0]])\<rparr>))
       ''a.png'' \<lparr>files = Map.empty(''a.png'' \<mapsto> ImageFile (ImgL [[0]])), stdout = []\<rparr> =
       (Ret (Some ''a.dxf''), w') \<and>
     files w' ''a.dxf'' = Some (DxfFile doc) \<and> map (\<lambda>e. length (lw_points e)) (modelspace doc) = [161]"
proof -
  let ?sq = "[lines_of [0, 10, 10 + 10 * \<i>, 10 * \<i>, 0]]"
  let ?run = "\<lambda>args w. Inr (0 :: int, Some [], w\<lparr>files := (files w)(''a.svg'' \<mapsto> SvgFile ?sq)\<rparr>)"
  let ?w = "\<lparr>files = Map.empty(''a.png'' \<mapsto> ImageFile (ImgL [[0]])), stdout = []\<rparr>"
  have h1: "files ?w ''a.png'' = Some (ImageFile (ImgL [[0]]))" by simp
  have h2: "writable ?w (pbm_path_of ''a.png'')"
    by (simp add: demo_paths writable_no_slash)
  have hs: "writable ?w (svg_path_of (pbm_path_of ''a.png''))"
    by (simp add: demo_paths writable_no_slash)
  have h3: "writable ?w (dxf_path_of (svg_path_of (pbm_path_of ''a.png'')))"
    by (simp add: demo_paths writable_no_slash)
  have t: "traces_to ?run (pbm_path_of ''a.png'') 0 (Some []) ?sq"
    using demo_traces_to by (simp add: demo_paths)
  have qs: "[10, 10 + 10 * \<i>, 10 * \<i>, 0 :: complex] \<noteq> []" by simp
  have sides: "successively (\<lambda>a b. decimation_eps * 40 < cmod (b - a)) [0, 10, 10 + 10 * \<i>, 10 * \<i>, 0]"
    by (simp add: decimation_eps_def norm_mult)
  show ?thesis using main_polygon[OF h1 h2 hs h3 t qs sides] by (simp add: demo_paths)
qed

theorem main_dxf_directory_missing_witness:
  "fst (main (\<lambda>args w. Inr (0, Some [], w\<lparr>files := (files w)(''x.svg/a.svg'' \<mapsto> SvgFile [[Line 0 1]])\<rparr>))
          ''x.svg/a.png''
          \<lparr>files = Map.empty(''x.svg'' \<mapsto> Directory, ''x.svg/a.png'' \<mapsto> ImageFile (ImgL [[0]])),
           stdout = []\<rparr>) = Raise FileNotFoundError"
proof -
  let ?run = "\<lambda>args w. Inr (0 :: int, Some [], w\<lparr>files := (files w)(''x.svg/a.svg'' \<mapsto> SvgFile [[Line 0 1]])\<rparr>)"
  let ?w = "\<lparr>files = Map.empty(''x.svg'' \<mapsto> Directory, ''x.svg/a.png'' \<mapsto> ImageFile (ImgL [[0]])),
             stdout = []\<rparr>"
  have pbm: "pbm_path_of ''x.svg/a.png'' = ''x.svg/a.pbm''"
    using pbm_path_of_ext[of "''x.svg/a''" "''png''"] by simp
  have svg: "svg_path_of ''x.svg/a.pbm'' = ''x.svg/a.svg''"
    by (simp add: svg_path_of_def py_replace.simps prefix_def)
  have dxf: "dxf_path_of ''x.svg/a.svg'' = ''x.dxf/a.dxf''"
    by (simp add: dxf_path_of_def py_replace.simps prefix_def)
  have dir: "py_dirname ''x.dxf/a.dxf'' = ''x.dxf''"
    using py_dirname_append[of "''x.dxf''" "''a.dxf''"] by simp
  have h1: "files ?w ''x.svg/a.png'' = Some (ImageFile (ImgL [[0]]))" by simp
  have h2: "writable ?w (pbm_path_of ''x.svg/a.png'')"
    using py_dirname_append[of "''x.svg''" "''a.pbm''"] by (simp add: pbm writable_def)
  have t: "traces_to ?run (pbm_path_of ''x.svg/a.png'') 0 (Some []) [[Line 0 1]]"
    by (simp add: traces_to_def pbm svg)
  have sp: "spec_polylines 40 [[Line 0 1]] \<noteq> []"
    by (simp add: spec_polylines_def sampled_def upt_rec flip_y_def decimation_eps_lt_iff)
  have h7: "py_dirname (dxf_path_of (svg_path_of (pbm_path_of ''x.svg/a.png''))) \<noteq> []"
    by (simp add: pbm svg dxf dir)
  have h8: "files ?w (py_dirname (dxf_path_of (svg_path_of (pbm_path_of ''x.svg/a.png'')))) = None"
    by (simp add: pbm svg dxf dir)
  show ?thesis using main_dxf_directory_missing[OF h1 h2 t _ _ sp h7 h8] by simp
qed

end
