(* ===== verification/Stages.thy ===== *)
theory Stages
  imports Pipeline
begin

text \<open>
  The control flow of \<open>main\<close> (\<open>src/linux_cadtrace.py\<close>, lines 76--97) as a state
  machine: a state is the point the function has reached (before the input check, after
  the binarisation with the PBM path, after the tracer with the SVG path it returned, or
  finished with the function's result) together with the world. One step runs one stage
  of the function, with the guards of its \<open>if\<close>s and the exceptions of the stages.
\<close>

datatype stage =
    Start
  | Binarised string
  | Traced "string option"
  | Finished "string option outcome"

inductive main_step :: "process \<Rightarrow> string \<Rightarrow> stage \<times> world \<Rightarrow> stage \<times> world \<Rightarrow> bool"
  for run :: process and p :: string where
  not_found: "\<not> path_exists w p \<Longrightarrow>
    main_step run p (Start, w) (Finished (Ret None), emit MsgImageNotFound w)"
| binarise: "path_exists w p \<Longrightarrow> convert_to_pbm p (emit (MsgPreprocessing p) w) = (Ret pbm, w1) \<Longrightarrow>
    main_step run p (Start, w) (Binarised pbm, w1)"
| binarise_raise: "path_exists w p \<Longrightarrow> convert_to_pbm p (emit (MsgPreprocessing p) w) = (Raise e, w1) \<Longrightarrow>
    main_step run p (Start, w) (Finished (Raise e), w1)"
| trace: "trace_with_potrace run pbm (emit MsgTracing w) = (Ret svg, w2) \<Longrightarrow>
    main_step run p (Binarised pbm, w) (Traced svg, w2)"
| trace_raise: "trace_with_potrace run pbm (emit MsgTracing w) = (Raise e, w2) \<Longrightarrow>
    main_step run p (Binarised pbm, w) (Finished (Raise e), w2)"
| abort: "svg = None \<or> svg = Some [] \<Longrightarrow>
    main_step run p (Traced svg, w) (Finished (Ret None), emit MsgAborting w)"
| export_done: "s \<noteq> [] \<Longrightarrow> svg_to_dxf 40 s (dxf_path_of s) (emit MsgExporting w) = (Ret True, w3) \<Longrightarrow>
    main_step run p (Traced (Some s), w) (Finished (Ret (Some (dxf_path_of s))), emit MsgDone w3)"
| export_failed: "s \<noteq> [] \<Longrightarrow> svg_to_dxf 40 s (dxf_path_of s) (emit MsgExporting w) = (Ret False, w3) \<Longrightarrow>
    main_step run p (Traced (Some s), w) (Finished (Ret None), emit MsgExportFailed w3)"
| export_raise: "s \<noteq> [] \<Longrightarrow> svg_to_dxf 40 s (dxf_path_of s) (emit MsgExporting w) = (Raise e, w3) \<Longrightarrow>
    main_step run p (Traced (Some s), w) (Finished (Raise e), w3)"

text \<open>The rest of \<open>main\<close> from each stage: what the function returns from there.\<close>

definition finish_traced :: "string option \<Rightarrow> world \<Rightarrow> string option outcome \<times> world" where
  "finish_traced svg_opt w2 =
     (if svg_opt = None \<or> svg_opt = Some [] then (Ret None, emit MsgAborting w2)
      else
        (let svg_path = the svg_opt; dxf_path = dxf_path_of svg_path in
         case svg_to_dxf 40 svg_path dxf_path (emit MsgExporting w2) of
           (Raise e, w3) \<Rightarrow> (Raise e, w3)
         | (Ret success, w3) \<Rightarrow>
             (if success then (Ret (Some dxf_path), emit MsgDone w3)
              else (Ret None, emit MsgExportFailed w3))))"

definition finish_binarised :: "process \<Rightarrow> string \<Rightarrow> world \<Rightarrow> string option outcome \<times> world" where
  "finish_binarised run pbm_path w1 =
     (case trace_with_potrace run pbm_path (emit MsgTracing w1) of
        (Raise e, w2) \<Rightarrow> (Raise e, w2)
      | (Ret svg_opt, w2) \<Rightarrow> finish_traced svg_opt w2)"

fun stage_result :: "process \<Rightarrow> string \<Rightarrow> stage \<times> world \<Rightarrow> string option outcome \<times> world" where
  "stage_result run p (Start, w) = main run p w"
| "stage_result run p (Binarised pbm, w) = finish_binarised run pbm w"
| "stage_result run p (Traced svg, w) = finish_traced svg w"
| "stage_result run p (Finished r, w) = (r, w)"

text \<open>
  What holds at each stage of a run of \<open>main\<close> on the input \<open>p\<close>: after the
  binarisation, the PBM file at the derived path holds a bilevel image; after the tracer,
  the SVG path is the derived one; a returned path is the derived DXF path, and that file
  holds a document of well-formed polylines.
\<close>

definition stage_inv :: "string \<Rightarrow> stage \<times> world \<Rightarrow> bool" where
  "stage_inv p st =
     (case st of
        (Binarised q, w) \<Rightarrow> q = pbm_path_of p \<and> (\<exists>i. files w q = Some (ImageFile (Img1 i)))
      | (Traced (Some s), w) \<Rightarrow> s = svg_path_of (pbm_path_of p)
      | (Finished (Ret (Some d)), w) \<Rightarrow>
          d = dxf_path_of (svg_path_of (pbm_path_of p)) \<and>
          (\<exists>doc. files w d = Some (DxfFile doc) \<and> modelspace doc \<noteq> [] \<and>
                 list_all entity_wf (modelspace doc))
      | _ \<Rightarrow> True)"

inductive_cases main_step_StartE: "main_step run p (Start, w) st'"
inductive_cases main_step_BinarisedE: "main_step run p (Binarised pbm, w) st'"
inductive_cases main_step_TracedE: "main_step run p (Traced svg, w) st'"
inductive_cases main_step_FinishedE: "main_step run p (Finished r, w) st'"

lemma main_split:
  "main run p w =
     (if \<not> path_exists w p then (Ret None, emit MsgImageNotFound w)
      else (case convert_to_pbm p (emit (MsgPreprocessing p) w) of
              (Raise e, w1) \<Rightarrow> (Raise e, w1)
            | (Ret pbm_path, w1) \<Rightarrow> finish_binarised run pbm_path w1))"
  unfolding main_def finish_binarised_def finish_traced_def ..

lemma main_step_result:
  "main_step run p st st' \<Longrightarrow> stage_result run p st' = stage_result run p st"
  by (induction rule: main_step.induct)
     (auto simp: main_split finish_binarised_def finish_traced_def Let_def)

lemma main_steps_result:
  "(main_step run p)\<^sup>*\<^sup>* st st' \<Longrightarrow> stage_result run p st' = stage_result run p st"
  by (induction rule: rtranclp_induct) (simp_all add: main_step_result)

lemma finish_traced_steps:
  "finish_traced svg w = (r, w') \<Longrightarrow> main_step run p (Traced svg, w) (Finished r, w')"
  by (auto simp: finish_traced_def Let_def intro: main_step.intros split: if_splits prod.splits outcome.splits)

lemma finish_binarised_steps:
  assumes "finish_binarised run pbm w = (r, w')"
  shows "(main_step run p)\<^sup>*\<^sup>* (Binarised pbm, w) (Finished r, w')"
proof -
  obtain r2 w2 where t: "trace_with_potrace run pbm (emit MsgTracing w) = (r2, w2)" by fastforce
  show ?thesis
  proof (cases r2)
    case (Ret svg)
    then have "main_step run p (Binarised pbm, w) (Traced svg, w2)"
      and "main_step run p (Traced svg, w2) (Finished r, w')"
      using t assms by (auto simp: finish_binarised_def intro: main_step.trace finish_traced_steps)
    then show ?thesis by (meson converse_rtranclp_into_rtranclp r_into_rtranclp)
  next
    case (Raise e)
    then show ?thesis
      using t assms by (auto simp: finish_binarised_def intro: main_step.trace_raise)
  qed
qed

lemma main_to_steps:
  "main run p w = (r, w') \<Longrightarrow> (main_step run p)\<^sup>*\<^sup>* (Start, w) (Finished r, w')"
  by (auto simp: main_split intro: main_step.intros finish_binarised_steps
      converse_rtranclp_into_rtranclp split: if_splits prod.splits outcome.splits)

subsection \<open>The stage invariant\<close>

lemma convert_to_pbm_Ret_file:
  "convert_to_pbm p w = (Ret q, w') \<Longrightarrow> \<exists>i. files w' q = Some (ImageFile (Img1 i))"
  by (auto simp: convert_to_pbm_def Let_def write_file_def point_1_def split: sum.splits if_splits)

lemma main_step_inv:
  "main_step run p st st' \<Longrightarrow> stage_inv p st \<Longrightarrow> stage_inv p st'"
proof (induction rule: main_step.induct)
  case (binarise w pbm w1)
  then show ?case
    by (auto simp: stage_inv_def dest: convert_to_pbm_Ret_path convert_to_pbm_Ret_file)
next
  case (trace pbm w svg w2)
  then show ?case
    by (cases svg) (auto simp: stage_inv_def dest: trace_with_potrace_Ret_path)
next
  case (export_done s w w3)
  then show ?case
    by (auto simp: stage_inv_def dest: svg_to_dxf_Ret_True)
qed (simp_all add: stage_inv_def)

text \<open>
  The stage machine agrees with \<^const>\<open>main\<close>: a call returns \<open>r\<close> and leaves the world
  \<open>w'\<close> exactly when the steps lead from the start to the final stage with \<open>r\<close> and
  \<open>w'\<close>. This ties the invariant below to the function.
\<close>

lemma main_steps_iff:
  "main run p w = (r, w') \<longleftrightarrow> (main_step run p)\<^sup>*\<^sup>* (Start, w) (Finished r, w')"
  using main_to_steps main_steps_result[of run p "(Start, w)" "(Finished r, w')"] by auto

text \<open>
  C33. In every state a run of \<open>main\<close> on \<open>p\<close> reaches, the stage invariant holds: the
  PBM written is the derived path and holds a bilevel image, the SVG path is the derived
  one, and a returned DXF path is the derived one, holding well-formed polylines.
\<close>

theorem reachable_stage_inv:
  "(main_step run p)\<^sup>*\<^sup>* (Start, w) st \<Longrightarrow> stage_inv p st"
proof (induction rule: rtranclp_induct)
  case base
  then show ?case by (simp add: stage_inv_def)
next
  case (step st1 st2)
  then show ?case using main_step_inv by blast
qed

theorem reachable_stage_inv_witness:
  "(main_step (\<lambda>args w. Inl FileNotFoundError) ''a.png'')\<^sup>*\<^sup>*
     (Start, \<lparr>files = Map.empty(''a.png'' \<mapsto> ImageFile (ImgL [[0]])), stdout = []\<rparr>)
     (Binarised ''a.pbm'',
      \<lparr>files = Map.empty(''a.png'' \<mapsto> ImageFile (ImgL [[0]]),
                         ''a.pbm'' \<mapsto> ImageFile (point_1 threshold (convert_L (ImgL [[0]])))),
       stdout = [MsgPreprocessing ''a.png'']\<rparr>) \<and>
   stage_inv ''a.png''
     (Binarised ''a.pbm'',
      \<lparr>files = Map.empty(''a.png'' \<mapsto> ImageFile (ImgL [[0]]),
                         ''a.pbm'' \<mapsto> ImageFile (point_1 threshold (convert_L (ImgL [[0]])))),
       stdout = [MsgPreprocessing ''a.png'']\<rparr>)"
proof -
  let ?w = "\<lparr>files = Map.empty(''a.png'' \<mapsto> ImageFile (ImgL [[0]])), stdout = []\<rparr>"
  let ?w1 = "\<lparr>files = Map.empty(''a.png'' \<mapsto> ImageFile (ImgL [[0]]),
                         ''a.pbm'' \<mapsto> ImageFile (point_1 threshold (convert_L (ImgL [[0]])))),
       stdout = [MsgPreprocessing ''a.png'']\<rparr>"
  have "convert_to_pbm ''a.png'' (emit (MsgPreprocessing ''a.png'') ?w) = (Ret ''a.pbm'', ?w1)"
    by (simp add: convert_to_pbm_Ret image_open_def emit_def demo_paths fun_upd_twist writable_no_slash)
  then have "main_step (\<lambda>args w. Inl FileNotFoundError) ''a.png'' (Start, ?w) (Binarised ''a.pbm'', ?w1)"
    by (rule main_step.binarise[rotated]) (simp add: path_exists_def)
  then have r: "(main_step (\<lambda>args w. Inl FileNotFoundError) ''a.png'')\<^sup>*\<^sup>* (Start, ?w) (Binarised ''a.pbm'', ?w1)"
    by (rule r_into_rtranclp)
  show ?thesis using r reachable_stage_inv[OF r] by simp
qed


end
