(* ===== verification/Spec2Isabelle.thy ===== *)
theory Spec2Isabelle
  imports Stages
begin

text \<open>
  \<^bold>\<open>A verification model of \<open>src/linux_cadtrace.py\<close>.\<close>

  \<^medskip>
  \<^bold>\<open>The program.\<close> A single Python script converts a raster image into a DXF line
  drawing in three sequential stages, driven by \<open>main\<close> (lines 76--97):
  \<^enum> \<open>convert_to_pbm\<close> (12--17) opens the image with Pillow, converts it to 8-bit
    grayscale, thresholds it at 128 and saves a PBM file at the input path with its
    extension replaced by \<open>.pbm\<close>;
  \<^enum> \<open>trace_with_potrace\<close> (10, 19--26) runs the external \<open>potrace\<close> binary with
    output at the PBM path with \<open>.pbm\<close> replaced by \<open>.svg\<close>, and fails on a non-zero
    exit status;
  \<^enum> \<open>svg_to_dxf\<close> (36--74) parses the SVG with \<open>svgpathtools\<close>, samples every
    segment of every path at 41 parameters (\<open>samples_per_curve = 40\<close>), flips the y
    axis, decimates greedily (a point is kept when it is more than \<open>0.1\<close> from the last
    kept one), adds every result with at least two points as a closed \<open>LWPOLYLINE\<close>,
    and saves the document with \<open>ezdxf\<close> only if one was added.
  \<open>svg_path_to_dxf_coords\<close> (28--34) is the same sampling as a helper that nothing
  calls. The stages communicate through files; \<open>main\<close> prints a line before each stage.

  \<^medskip>
  \<^bold>\<open>The theories.\<close>
  \<^item> \<open>Prelude\<close>: Python's exceptions (\<^typ>\<open>pyexc\<close>), the outcome of a call that may
    raise (\<^typ>\<open>'a outcome\<close>), a \<open>for\<close> loop whose body may raise
    (\<^const>\<open>fold_err\<close>, with an append rule and an invariant rule), points and
    \<open>Vec2.distance\<close> (\<^const>\<open>vec2_distance\<close>).
  \<^item> \<open>Sampler\<close>: segments and \<open>segment.point\<close>; \<^const>\<open>svg_path_to_dxf_coords\<close>,
    \<^const>\<open>sample_segment\<close>, \<^const>\<open>sample_ts\<close> and \<^const>\<open>flip_y\<close> for lines
    28--34 and 53--57; \<^const>\<open>simplify_coords\<close> and \<^const>\<open>decimate_step\<close> for lines
    59--62, with \<open>coords[0]\<close> on an empty list as \<open>IndexError\<close>. The streaming
    reference \<^const>\<open>decimate_from\<close> (state: the last kept point) is proved equal to
    the list-building loop (C5) and carries the decimation proofs: the invariant that
    consecutive kept points are more than 0.1 apart (C1), the 0.1 error bound (C2),
    first point and order kept (C3), the \<open>IndexError\<close> (C4), idempotence (C6); for the
    sampling the point count (C7), the y flip (C8), \<open>ZeroDivisionError\<close> at zero
    samples (C9), the behaviour on straight lines (C10, C11), and on polygons (\<open>k\<close>
    sides longer than \<open>0.1 * n\<close> give \<open>1 + k * n\<close> points, so the square of the design notes
    gives 161, and a closed polygon ends on its first point; C31).
  \<^item> \<open>Raster\<close>: images as grids of \<^typ>\<open>8 word\<close>; \<^const>\<open>convert_L\<close> with Pillow's
    fixed-point formula \<^const>\<open>rgb2l\<close> computed in \<^typ>\<open>32 word\<close>, the threshold
    lambda \<^const>\<open>threshold\<close> and \<open>img.point(..., '1')\<close> (\<^const>\<open>point_1\<close>):
    the threshold is the arithmetic shift by 7 (C18), so it is pinned bit for bit.
  \<^item> \<open>World\<close>: the state the script acts on, a record of the file system (a map from
    path strings to contents: directory, image, SVG with its parsed paths, DXF document,
    other) and standard output (the printed lines, one constructor per \<open>print\<close>), and
    the library calls as functions of it: \<open>os.path.exists\<close>, \<open>Image.open\<close>,
    \<open>save\<close>/\<open>saveas\<close>, \<open>svg2paths2\<close>, \<open>ezdxf.new\<close>, \<open>add_lwpolyline\<close>. A write
    (\<^const>\<open>write_file\<close>) behaves as \<open>open(p, 'wb')\<close>: \<open>FileNotFoundError\<close> when the
    directory \<open>os.path.dirname(p)\<close> does not exist, \<open>NotADirectoryError\<close> when it is a
    file, \<open>IsADirectoryError\<close> when \<open>p\<close> is a directory; \<^const>\<open>writable\<close> names the
    paths a write succeeds on.
  \<^item> \<open>PyLib\<close>: \<open>str.replace\<close> (\<^const>\<open>py_replace\<close>) and \<open>posixpath.splitext\<close>
    (\<^const>\<open>py_splitext\<close>) and \<open>posixpath.dirname\<close> (\<^const>\<open>py_dirname\<close>) from
    CPython's definitions, with the lemmas that the file-name claims need (replacement at
    the end of a string and after a prefix without occurrence, length preservation,
    extension split, the directory of a path).
  \<^item> \<open>DxfExport\<close>: \<^const>\<open>export_path\<close> (one loop iteration, lines 52--66) and
    \<^const>\<open>svg_to_dxf\<close>. Its contract \<^const>\<open>spec_polylines\<close>/\<^const>\<open>spec_doc\<close>
    states the export without the loop; \<open>svg_to_dxf_refines\<close> (C12) proves that the
    code implements it. Further: a path without segments crashes the export (C13), a
    \<open>True\<close> result leaves a document of well-formed polylines (C14), the error returns
    (C15, C16), the only file written is the target, only on success (C17), and shapes
    smaller than the decimation distance are dropped without a write (C34).
  \<^item> \<open>Binarizer\<close>: \<^const>\<open>convert_to_pbm\<close> and \<^const>\<open>pbm_path_of\<close> (C19--C21).
  \<^item> \<open>Tracer\<close>: the tracer as an interface (\<open>process\<close>: arguments and world to exit
    status, decoded standard error, new world, or an exception),
    \<^const>\<open>trace_with_potrace\<close>, \<^const>\<open>svg_path_of\<close> (C22--C24; C23: a directory
    named \<open>d.pbm\<close> sends the tracer's output into \<open>d.svg\<close>, which nobody creates).
  \<^item> \<open>Pipeline\<close>: \<^const>\<open>main\<close> and \<^const>\<open>dxf_path_of\<close>; \<^const>\<open>traces_to\<close> is the
    contract assumed of the tracer in the end-to-end theorems (exit status, the SVG it
    writes, nothing else touched). Missing input (C25), the end-to-end run with its files
    and the order of its output (C26), the no-path scenario of the design notes (C27),
    tracer failure (C28), what a returned path guarantees whatever the tracer does
    (C29), the derived file names (C30), the square scenario of the design notes for any
    polygon (C32: one polyline of \<open>1 + 40 k\<close> vertices, 161 for a square, not 4--5), and
    the crash of line 91 when the derived DXF directory does not exist (C35: the input
    \<open>x.svg/a.png\<close> exports to \<open>x.dxf/a.dxf\<close>). The success theorems require the
    derived SVG and DXF paths to be writable in the initial world.
  \<^item> \<open>Stages\<close>: the control flow of \<open>main\<close> as a state machine: a state is the point
    reached (\<^typ>\<open>stage\<close>: start, binarised with the PBM path, traced with the returned
    SVG path, finished with the result) and the world; \<^const>\<open>main_step\<close> has one rule per
    branch of \<open>main\<close>. It agrees with \<^const>\<open>main\<close> (\<open>main_steps_iff\<close>, by the
    invariant that a step keeps the rest of the function's result), and its reachable
    states keep the stage invariant \<^const>\<open>stage_inv\<close> for every tracer (C33, rule
    induction).

  \<^medskip>
  \<^bold>\<open>Modelling choices.\<close> Python floats are exact reals and complex numbers: rounding
  of \<open>i / samples\<close>, of the Bezier evaluation and of the distance is not modelled, so
  a sample whose distance to the last kept point is within rounding of \<open>0.1\<close> may be
  decided differently by the program. Pixels are bytes and Pillow's conversion is done
  at its C widths. Loops are structural recursions over the lists the code iterates, so
  every definition is total and no fuel is needed; the two non-structural loops
  (\<open>str.replace\<close>, the leading-dot scan of \<open>splitext\<close>) are \<open>function\<close>s with measure
  termination proofs. Exceptions are values: uncaught ones end the call with
  \<^term>\<open>Raise e\<close>, the \<open>try/except\<close> around \<open>svg2paths2\<close> turns them into the
  \<open>False\<close> return. All definitions are executable; witnesses evaluate them by \<open>simp\<close>.

  \<^medskip>
  \<^bold>\<open>Not modelled.\<close> The potrace binary (only its interface and an assumed contract),
  the internals of Pillow, svgpathtools and ezdxf (only the behaviour the script relies
  on: file access, the parsed paths, segment evaluation for lines and quadratic and cubic
  Beziers, the entities of a document; SVG arcs are not modelled because potrace never
  writes them), image modes other than L, RGB and 1, permissions and the directories
  above the immediate parent of a written path (a world is taken to be a well-formed
  tree, in which a directory's parent is a directory), and the command-line entry, which
  the script does
  not have: \<open>main\<close> is never called and \<open>sys.argv\<close> is never read.

  \<^medskip>
  \<^bold>\<open>Plan for later work.\<close> Bernstein forms of the segment evaluation; the
  well-formedness of the file-system tree as an invariant of the writes.
\<close>

end
